theory Spec2Isabelle
  imports Complex_Main "HOL-Library.Sublist"
begin

section \<open>Python values shared by the services\<close>

text \<open>
  A Python \<open>str\<close> is a sequence of Unicode code points, so it is modelled as a list of
  code points. Literals of the source that are not ASCII are written as their code points;
  ASCII literals are written with \<open>ascii\<close>.
\<close>

type_synonym pystr = "nat list"

definition ascii :: "string \<Rightarrow> pystr" where
  "ascii s = map of_char s"

text \<open>\<open>t.startswith(w)\<close> and the substring test \<open>w in t\<close> of Python.\<close>

fun startswith :: "'a list \<Rightarrow> 'a list \<Rightarrow> bool" where
  "startswith _ [] = True"
| "startswith [] (_ # _) = False"
| "startswith (c # cs) (p # ps) = (c = p \<and> startswith cs ps)"

fun str_in :: "'a list \<Rightarrow> 'a list \<Rightarrow> bool" where
  "str_in w [] = (w = [])"
| "str_in w (c # cs) = (startswith (c # cs) w \<or> str_in w cs)"

text \<open>\<open>any(word in text for word in words)\<close>.\<close>

definition any_in :: "pystr list \<Rightarrow> pystr \<Rightarrow> bool" where
  "any_in words text = list_ex (\<lambda>word. str_in word text) words"

text \<open>
  The slices \<open>xs[-n:]\<close> and \<open>xs[:n]\<close> for an integer \<open>n\<close>. A start of \<open>-n\<close> counts
  from the end when it is negative and from the front otherwise, so \<open>xs[-0:]\<close> is all
  of \<open>xs\<close>.
\<close>

definition slice_last :: "int \<Rightarrow> 'a list \<Rightarrow> 'a list" where
  "slice_last n xs = (if 0 < n then drop (length xs - nat n) xs else drop (nat (- n)) xs)"

definition slice_first :: "int \<Rightarrow> 'a list \<Rightarrow> 'a list" where
  "slice_first n xs = (if 0 \<le> n then take (nat n) xs else take (length xs - nat (- n)) xs)"

text \<open>\<open>random.choice(xs)\<close> on a non-empty list; the random draw \<open>r\<close> is an input.\<close>

definition random_choice :: "nat \<Rightarrow> 'a list \<Rightarrow> 'a" where
  "random_choice r xs = xs ! (r mod length xs)"

subsection \<open>Naive datetimes and their ISO format\<close>

text \<open>
  The program creates datetimes with \<open>datetime.now()\<close> only, which have no time zone.
  \<open>isoformat\<close> writes \<open>YYYY-MM-DDTHH:MM:SS\<close>, followed by \<open>.ffffff\<close> when the
  microsecond is not zero. \<open>fromisoformat\<close> reads a date \<open>YYYY-MM-DD\<close>, alone or followed
  by one separator character of any kind and a time \<open>HH\<close>, \<open>HH:MM\<close>, \<open>HH:MM:SS\<close>,
  \<open>HH:MM:SS.fff\<close> or \<open>HH:MM:SS.ffffff\<close>, and checks the ranges of the fields as the
  \<open>datetime\<close> constructor does. These are the strings without a UTC offset that every
  Python from 3.7 on reads. A string with a UTC offset gives a datetime with a time
  zone, and Python 3.11 reads further ISO 8601 forms; both lie outside this model of
  naive datetimes and are a \<open>ValueError\<close> here.
\<close>

record datetime =
  year :: nat
  month :: nat
  day :: nat
  hour :: nat
  minute :: nat
  second :: nat
  microsecond :: nat

datatype py_error = KeyError | ValueError | TypeError | AttributeError

fun str_of_nat :: "nat \<Rightarrow> pystr" where
  "str_of_nat n = (if n < 10 then [48 + n] else str_of_nat (n div 10) @ [48 + n mod 10])"

definition zero_padded :: "nat \<Rightarrow> nat \<Rightarrow> pystr" where
  "zero_padded w n = replicate (w - length (str_of_nat n)) 48 @ str_of_nat n"

definition isoformat :: "datetime \<Rightarrow> pystr" where
  "isoformat dt =
     zero_padded 4 (year dt) @ [45] @ zero_padded 2 (month dt) @ [45] @ zero_padded 2 (day dt)
     @ [84] @ zero_padded 2 (hour dt) @ [58] @ zero_padded 2 (minute dt) @ [58]
     @ zero_padded 2 (second dt)
     @ (if microsecond dt \<noteq> 0 then [46] @ zero_padded 6 (microsecond dt) else [])"

definition is_digit :: "nat \<Rightarrow> bool" where
  "is_digit c = (48 \<le> c \<and> c \<le> 57)"

fun digits_value :: "nat \<Rightarrow> pystr \<Rightarrow> nat" where
  "digits_value acc [] = acc"
| "digits_value acc (c # cs) = digits_value (10 * acc + (c - 48)) cs"

definition parse_digits :: "pystr \<Rightarrow> nat option" where
  "parse_digits s = (if s \<noteq> [] \<and> list_all is_digit s then Some (digits_value 0 s) else None)"

definition is_leap :: "nat \<Rightarrow> bool" where
  "is_leap y = (y mod 4 = 0 \<and> (y mod 100 \<noteq> 0 \<or> y mod 400 = 0))"

definition days_in_month :: "nat \<Rightarrow> nat \<Rightarrow> nat" where
  "days_in_month y m =
     (if m = 2 then (if is_leap y then 29 else 28)
      else if m = 4 \<or> m = 6 \<or> m = 9 \<or> m = 11 then 30 else 31)"

definition valid_datetime :: "datetime \<Rightarrow> bool" where
  "valid_datetime dt =
     (1 \<le> year dt \<and> year dt \<le> 9999 \<and> 1 \<le> month dt \<and> month dt \<le> 12
      \<and> 1 \<le> day dt \<and> day dt \<le> days_in_month (year dt) (month dt)
      \<and> hour dt < 24 \<and> minute dt < 60 \<and> second dt < 60 \<and> microsecond dt < 1000000)"

definition slice :: "nat \<Rightarrow> nat \<Rightarrow> 'a list \<Rightarrow> 'a list" where
  "slice i j xs = take (j - i) (drop i xs)"

definition parse_date :: "pystr \<Rightarrow> (nat \<times> nat \<times> nat) option" where
  "parse_date s =
     (if length s = 10 \<and> s ! 4 = 45 \<and> s ! 7 = 45 then
        (case (parse_digits (slice 0 4 s), parse_digits (slice 5 7 s),
               parse_digits (slice 8 10 s)) of
           (Some y, Some mo, Some d) \<Rightarrow> Some (y, mo, d)
         | _ \<Rightarrow> None)
      else None)"

definition parse_time :: "pystr \<Rightarrow> (nat \<times> nat \<times> nat \<times> nat) option" where
  "parse_time s =
     (if (length s = 2 \<or> length s = 5 \<or> length s = 8 \<or> length s = 12 \<or> length s = 15)
         \<and> (if 5 \<le> length s then s ! 2 = 58 else True)
         \<and> (if 8 \<le> length s then s ! 5 = 58 else True)
         \<and> (if 12 \<le> length s then s ! 8 = 46 else True)
      then
        (case (parse_digits (slice 0 2 s),
               if 5 \<le> length s then parse_digits (slice 3 5 s) else Some 0,
               if 8 \<le> length s then parse_digits (slice 6 8 s) else Some 0,
               if length s = 12 then map_option (\<lambda>ms. ms * 1000) (parse_digits (slice 9 12 s))
               else if length s = 15 then parse_digits (slice 9 15 s)
               else Some 0) of
           (Some h, Some mi, Some se, Some us) \<Rightarrow> Some (h, mi, se, us)
         | _ \<Rightarrow> None)
      else None)"

definition fromisoformat :: "pystr \<Rightarrow> py_error + datetime" where
  "fromisoformat s =
     (if length s < 10 then Inl ValueError
      else
        case parse_date (take 10 s) of
          None \<Rightarrow> Inl ValueError
        | Some (y, mo, d) \<Rightarrow>
            (case (if length s = 10 then Some (0, 0, 0, 0) else parse_time (drop 11 s)) of
               None \<Rightarrow> Inl ValueError
             | Some (h, mi, se, us) \<Rightarrow>
                 (let dt = \<lparr>year = y, month = mo, day = d, hour = h, minute = mi,
                            second = se, microsecond = us\<rparr>
                  in if valid_datetime dt then Inr dt else Inl ValueError)))"

section \<open>Entities\<close>

datatype SentimentType = POSITIVE | NEGATIVE | NEUTRAL

datatype MemoryType = CONVERSATION | PREFERENCE | FACT | EMOTION

datatype PersonalityType = CARING | PLAYFUL | INTELLECTUAL | ROMANTIC

text \<open>The \<open>.value\<close> of a \<open>SentimentType\<close> member, and the lookup \<open>SentimentType(v)\<close>.\<close>

fun sentiment_value :: "SentimentType \<Rightarrow> pystr" where
  "sentiment_value POSITIVE = ascii ''positive''"
| "sentiment_value NEGATIVE = ascii ''negative''"
| "sentiment_value NEUTRAL = ascii ''neutral''"

definition sentiment_of_value :: "pystr \<Rightarrow> py_error + SentimentType" where
  "sentiment_of_value v =
     (if v = ascii ''positive'' then Inr POSITIVE
      else if v = ascii ''negative'' then Inr NEGATIVE
      else if v = ascii ''neutral'' then Inr NEUTRAL
      else Inl ValueError)"

text \<open>
  \<open>ConversationEntry\<close>: the metadata dictionary has string keys; the type of its values
  is left open.
\<close>

record 'v ConversationEntry =
  user_message :: pystr
  assistant_response :: pystr
  sentiment :: SentimentType
  timestamp :: datetime
  metadata :: "pystr \<rightharpoonup> 'v"

section \<open>AI conversation service\<close>

text \<open>
  The service object: the initialised flag, the current provider and the conversation
  statistics. \<open>str.lower\<close> is Python's Unicode lower-casing; it is a parameter
  \<open>lower\<close> of every function that calls it.
\<close>

record ConversationStats =
  total_conversations :: int
  total_tokens_used :: int
  last_conversation :: "pystr option"

record AIConversationService =
  is_initialized :: bool
  current_provider :: pystr
  conversation_stats :: ConversationStats

text \<open>The fields of \<open>config.ai\<close> that response generation reads.\<close>

record AIProviderConfig =
  openai_model :: pystr
  openrouter_model :: pystr
  ollama_base_url :: pystr
  temperature :: real
  max_tokens :: int

text \<open>A message dictionary \<open>{"role": r, "content": c}\<close>.\<close>

datatype chat_message = ChatMessage (msg_role: pystr) (msg_content: pystr)

text \<open>
  The providers are outside the program. A call either raises or returns; what it
  returns is described as far as the service reads it.
  \<^item> OpenAI: \<open>OpenAIRaises\<close> when the call or the reading of the first choice raises;
    otherwise the content of the first choice (\<open>None\<close> is a null content) and
    \<open>usage.total_tokens\<close> (\<open>None\<close> when reading it raises).
  \<^item> OpenRouter and Ollama: \<open>RequestRaises\<close> when the request raises; otherwise the HTTP
    status and the body. A body whose decoding or indexing raises is invalid. The
    content of an OpenRouter body may be null (\<open>None\<close>); its \<open>usage\<close> entry may be
    absent, present without \<open>total_tokens\<close> (reading it raises) or present. The
    \<open>response\<close> entry of an Ollama body may be absent, null or a string.
\<close>

datatype openai_outcome = OpenAIRaises | OpenAICompletion "pystr option" "int option"

datatype usage = NoUsage | UsageInvalid | Usage int

datatype openrouter_body = BodyInvalid | Body "pystr option" usage

datatype response_entry = ResponseAbsent | ResponseNull | ResponseText pystr

datatype ollama_body = OllamaBodyInvalid | OllamaBody response_entry

datatype 'b http_outcome = RequestRaises | Response int 'b

record 'b request =
  req_model :: pystr
  req_body :: 'b
  req_temperature :: real
  req_max_tokens :: int

record providers =
  chat_completions_create :: "chat_message list request \<Rightarrow> openai_outcome"
  post_openrouter :: "chat_message list request \<Rightarrow> openrouter_body http_outcome"
  post_ollama :: "pystr request \<Rightarrow> ollama_body http_outcome"

text \<open>\<open>_build_messages\<close>: the system prompt, the last ten history entries, the user message.\<close>

fun history_messages :: "'v ConversationEntry list \<Rightarrow> chat_message list" where
  "history_messages [] = []"
| "history_messages (entry # rest) =
     ChatMessage (ascii ''user'') (user_message entry)
     # ChatMessage (ascii ''assistant'') (assistant_response entry)
     # history_messages rest"

definition build_messages ::
  "pystr \<Rightarrow> 'v ConversationEntry list option \<Rightarrow> pystr \<Rightarrow> chat_message list" where
  "build_messages system_prompt conversation_history user_msg =
     [ChatMessage (ascii ''system'') system_prompt]
     @ (case conversation_history of
          None \<Rightarrow> []
        | Some h \<Rightarrow> if h = [] then [] else history_messages (slice_last 10 h))
     @ [ChatMessage (ascii ''user'') user_msg]"

text \<open>\<open>_fallback_response\<close>: the keyword lists in the order of the source.\<close>

definition greeting_words :: "pystr list" where
  "greeting_words = [[50504, 45397], ascii ''hello'', ascii ''hi'']"

definition sad_words :: "pystr list" where
  "sad_words = [[49836, 54532], [50864, 50872], [55192, 46308]]"

definition glad_words :: "pystr list" where
  "glad_words = [[44592, 49240], [54665, 48373], [51339]]"

definition thanks_words :: "pystr list" where
  "thanks_words = [[44256, 47560, 50892], [44048, 49324]]"

definition farewell_words :: "pystr list" where
  "farewell_words = [[50504, 45397, 55176], ascii ''bye'', ascii ''goodbye'']"

definition question_words :: "pystr list" where
  "question_words = [[47952], [47924, 50631], [50780], [50612, 46523, 44172]]"

definition greeting_reply :: pystr where
  "greeting_reply =
     [50504, 45397, 54616, 49464, 50836, 33, 32, 47564, 45208, 49436, 32, 48152, 44032,
      50892, 50836, 46, 32, 65, 73, 32, 49436, 48708, 49828, 50640, 32, 50672, 44208,
      54624, 32, 49688, 32, 50630, 51648, 47564, 32, 50668, 51204, 55176, 32, 45817, 49888,
      44284, 32, 45824, 54868, 54616, 44256, 32, 49910, 50612, 50836, 46]"

definition comfort_reply :: pystr where
  "comfort_reply =
     [55192, 46304, 32, 49884, 44036, 51060, 49884, 44400, 50836, 46, 32, 48708, 47197, 32,
      65, 73, 32, 49436, 48708, 49828, 44032, 32, 50672, 44208, 46104, 51648, 32, 50506,
      50520, 51648, 47564, 44, 32, 51228, 44032, 32, 50668, 44592, 32, 51080, 50612, 49436,
      32, 45817, 49888, 51032, 32, 51060, 50556, 44592, 47484, 32, 46308, 50612, 46300,
      47540, 32, 49688, 32, 51080, 50612, 50836, 46]"

definition glad_reply :: pystr where
  "glad_reply =
     [44592, 48516, 51060, 32, 51339, 51004, 49884, 45796, 45768, 32, 51200, 46020, 32,
      54632, 44760, 32, 44592, 48848, 50836, 33, 32, 45908, 32, 51088, 49464, 54620, 32,
      51060, 50556, 44592, 47484, 32, 46308, 47140, 51452, 49464, 50836, 46]"

definition thanks_reply :: pystr where
  "thanks_reply =
     [52380, 47564, 50640, 50836, 33, 32, 50616, 51228, 46304, 51648, 32, 46020, 50880,
      51060, 32, 54596, 50836, 54616, 49884, 47732, 32, 47568, 50432, 54644, 51452, 49464,
      50836, 46]"

definition farewell_reply :: pystr where
  "farewell_reply =
     [50504, 45397, 55176, 32, 44032, 49464, 50836, 33, 32, 51339, 51008, 32, 54616, 47336,
      32, 48372, 45236, 49884, 44256, 44, 32, 45796, 51020, 50640, 32, 46608, 32, 47564,
      45208, 50836, 33]"

definition question_reply :: pystr where
  "question_reply =
     [44417, 44552, 54620, 32, 44163, 51060, 32, 51080, 51004, 49884, 44400, 50836, 46, 32,
      65, 73, 32, 49436, 48708, 49828, 44032, 32, 50672, 44208, 46104, 47732, 32, 45908,
      32, 51088, 49464, 54620, 32, 45813, 48320, 51012, 32, 46300, 47540, 32, 49688, 32,
      51080, 51012, 32, 53584, 45936, 44, 32, 51648, 44552, 51008, 32, 51228, 54620, 51201,
      51064, 32, 51025, 45813, 47564, 32, 44032, 45733, 54644, 50836, 46]"

definition default_reply_1 :: pystr where
  "default_reply_1 =
     [55141, 48120, 47196, 50868, 32, 51060, 50556, 44592, 45348, 50836, 46, 32, 45908, 32,
      51088, 49464, 55176, 32, 47568, 50432, 54644, 51452, 49464, 50836, 46]"

definition default_reply_2 :: pystr where
  "default_reply_2 =
     [44536, 47088, 32, 51068, 51060, 32, 51080, 51004, 49512, 44400, 50836, 46, 32, 50612,
      46500, 32, 44592, 48516, 51060, 49512, 45208, 50836, 63]"

definition default_reply_3 :: pystr where
  "default_reply_3 =
     [45817, 49888, 51032, 32, 51060, 50556, 44592, 47484, 32, 46307, 44256, 32, 51080,
      50612, 50836, 46, 32, 44228, 49549, 54644, 51452, 49464, 50836, 46]"

definition default_reply_4 :: pystr where
  "default_reply_4 =
     [65, 73, 32, 50672, 44208, 51060, 32, 50504, 32, 46104, 50612, 32, 51080, 51648,
      47564, 44, 32, 50668, 51204, 55176, 32, 45817, 49888, 44284, 32, 45824, 54868, 54616,
      44256, 32, 49910, 50612, 50836, 46]"

definition default_reply_5 :: pystr where
  "default_reply_5 =
     [51228, 54620, 51201, 51060, 51648, 47564, 32, 45817, 49888, 51032, 32, 46041, 48152,
      51088, 44032, 32, 46104, 50612, 46300, 47532, 44256, 32, 49910, 50612, 50836, 46]"
definition default_replies :: "pystr list" where
  "default_replies =
     [default_reply_1, default_reply_2, default_reply_3, default_reply_4, default_reply_5]"

definition fallback_response :: "(pystr \<Rightarrow> pystr) \<Rightarrow> nat \<Rightarrow> pystr \<Rightarrow> pystr" where
  "fallback_response lower r user_msg =
     (let user_lower = lower user_msg in
      if any_in greeting_words user_lower then greeting_reply
      else if any_in sad_words user_lower then comfort_reply
      else if any_in glad_words user_lower then glad_reply
      else if any_in thanks_words user_lower then thanks_reply
      else if any_in farewell_words user_lower then farewell_reply
      else if str_in [63] user_msg \<or> any_in question_words user_lower then question_reply
      else random_choice r default_replies)"

text \<open>
  The three provider paths. Each returns the response (\<open>None\<close> is Python's \<open>None\<close>)
  and the updated service, or \<open>Inl\<close> of the service as it is when an exception leaves
  the function: the statistics already written stay written.
\<close>

definition generate_openai_response ::
  "providers \<Rightarrow> AIProviderConfig \<Rightarrow> datetime \<Rightarrow> AIConversationService \<Rightarrow> pystr \<Rightarrow> pystr
   \<Rightarrow> 'v ConversationEntry list option \<Rightarrow> real \<Rightarrow> int
   \<Rightarrow> AIConversationService + (pystr option \<times> AIConversationService)" where
  "generate_openai_response ext cfg now s user_msg system_prompt conversation_history temp maxtok =
     (let messages = build_messages system_prompt conversation_history user_msg in
      case chat_completions_create ext
             \<lparr>req_model = openai_model cfg, req_body = messages,
              req_temperature = temp, req_max_tokens = maxtok\<rparr> of
        OpenAIRaises \<Rightarrow> Inl s
      | OpenAICompletion assistant_reply tokens \<Rightarrow>
          (let st1 = (conversation_stats s)
                       \<lparr>total_conversations := total_conversations (conversation_stats s) + 1\<rparr>
           in case tokens of
                None \<Rightarrow> Inl (s\<lparr>conversation_stats := st1\<rparr>)
              | Some n \<Rightarrow>
                  Inr (assistant_reply,
                       s\<lparr>conversation_stats :=
                           st1\<lparr>total_tokens_used := total_tokens_used st1 + n,
                               last_conversation := Some (isoformat now)\<rparr>\<rparr>)))"

definition generate_openrouter_response ::
  "providers \<Rightarrow> AIProviderConfig \<Rightarrow> datetime \<Rightarrow> AIConversationService \<Rightarrow> pystr \<Rightarrow> pystr
   \<Rightarrow> 'v ConversationEntry list option \<Rightarrow> real \<Rightarrow> int
   \<Rightarrow> AIConversationService + (pystr option \<times> AIConversationService)" where
  "generate_openrouter_response ext cfg now s user_msg system_prompt conversation_history temp maxtok =
     (let messages = build_messages system_prompt conversation_history user_msg in
      case post_openrouter ext
             \<lparr>req_model = openrouter_model cfg, req_body = messages,
              req_temperature = temp, req_max_tokens = maxtok\<rparr> of
        RequestRaises \<Rightarrow> Inl s
      | Response status_code body \<Rightarrow>
          if status_code = 200 then
            (case body of
               BodyInvalid \<Rightarrow> Inl s
             | Body assistant_reply u \<Rightarrow>
                 (let st1 = (conversation_stats s)
                              \<lparr>total_conversations := total_conversations (conversation_stats s) + 1\<rparr>
                  in case u of
                       UsageInvalid \<Rightarrow> Inl (s\<lparr>conversation_stats := st1\<rparr>)
                     | NoUsage \<Rightarrow>
                         Inr (assistant_reply,
                              s\<lparr>conversation_stats :=
                                  st1\<lparr>last_conversation := Some (isoformat now)\<rparr>\<rparr>)
                     | Usage n \<Rightarrow>
                         Inr (assistant_reply,
                              s\<lparr>conversation_stats :=
                                  st1\<lparr>total_tokens_used := total_tokens_used st1 + n,
                                      last_conversation := Some (isoformat now)\<rparr>\<rparr>)))
          else Inr (None, s))"

text \<open>The prompt of the Ollama request, assembled from the same window of the history.\<close>

fun history_prompt :: "'v ConversationEntry list \<Rightarrow> pystr" where
  "history_prompt [] = []"
| "history_prompt (entry # rest) =
     ascii ''Human: '' @ user_message entry @ [10] @ ascii ''Assistant: ''
     @ assistant_response entry @ [10, 10] @ history_prompt rest"

definition ollama_prompt :: "pystr \<Rightarrow> 'v ConversationEntry list option \<Rightarrow> pystr \<Rightarrow> pystr" where
  "ollama_prompt system_prompt conversation_history user_msg =
     ascii ''System: '' @ system_prompt @ [10, 10]
     @ (case conversation_history of
          None \<Rightarrow> []
        | Some h \<Rightarrow> if h = [] then [] else history_prompt (slice_last 10 h))
     @ ascii ''Human: '' @ user_msg @ [10] @ ascii ''Assistant:''"

definition generate_ollama_response ::
  "providers \<Rightarrow> AIProviderConfig \<Rightarrow> datetime \<Rightarrow> AIConversationService \<Rightarrow> pystr \<Rightarrow> pystr
   \<Rightarrow> 'v ConversationEntry list option \<Rightarrow> real \<Rightarrow> int
   \<Rightarrow> AIConversationService + (pystr option \<times> AIConversationService)" where
  "generate_ollama_response ext cfg now s user_msg system_prompt conversation_history temp maxtok =
     (case post_ollama ext
             \<lparr>req_model = ascii ''gemma3:1b'',
              req_body = ollama_prompt system_prompt conversation_history user_msg,
              req_temperature = temp, req_max_tokens = maxtok\<rparr> of
        RequestRaises \<Rightarrow> Inl s
      | Response status_code body \<Rightarrow>
          if status_code = 200 then
            (case body of
               OllamaBodyInvalid \<Rightarrow> Inl s
             | OllamaBody reply \<Rightarrow>
                 Inr ((case reply of
                         ResponseAbsent \<Rightarrow> Some []
                       | ResponseNull \<Rightarrow> None
                       | ResponseText text \<Rightarrow> Some text),
                      s\<lparr>conversation_stats :=
                          (conversation_stats s)
                            \<lparr>total_conversations := total_conversations (conversation_stats s) + 1,
                             last_conversation := Some (isoformat now)\<rparr>\<rparr>))
          else Inr (None, s))"

text \<open>
  \<open>generate_response\<close>: the fallback when the service is not initialised or the provider
  path raises; \<open>None\<close> when the current provider is none of the three.
\<close>

definition generate_response ::
  "(pystr \<Rightarrow> pystr) \<Rightarrow> nat \<Rightarrow> providers \<Rightarrow> AIProviderConfig \<Rightarrow> datetime
   \<Rightarrow> AIConversationService \<Rightarrow> pystr \<Rightarrow> pystr \<Rightarrow> 'v ConversationEntry list option
   \<Rightarrow> real option \<Rightarrow> int option \<Rightarrow> pystr option \<times> AIConversationService" where
  "generate_response lower r ext cfg now s user_msg system_prompt conversation_history
     temp_arg maxtok_arg =
     (if \<not> is_initialized s then (Some (fallback_response lower r user_msg), s)
      else
        let temp = (case temp_arg of None \<Rightarrow> temperature cfg | Some t \<Rightarrow> t);
            maxtok = (case maxtok_arg of None \<Rightarrow> max_tokens cfg | Some m \<Rightarrow> m);
            attempt =
              (if current_provider s = ascii ''openai'' then
                 generate_openai_response ext cfg now s user_msg system_prompt
                   conversation_history temp maxtok
               else if current_provider s = ascii ''openrouter'' then
                 generate_openrouter_response ext cfg now s user_msg system_prompt
                   conversation_history temp maxtok
               else if current_provider s = ascii ''ollama'' then
                 generate_ollama_response ext cfg now s user_msg system_prompt
                   conversation_history temp maxtok
               else Inr (None, s))
        in case attempt of
             Inl s' \<Rightarrow> (Some (fallback_response lower r user_msg), s')
           | Inr result \<Rightarrow> result)"

text \<open>\<open>analyze_sentiment\<close>: count the keywords of each list that occur in the text.\<close>

definition positive_words :: "pystr list" where
  "positive_words =
     [[44592, 49240], [54665, 48373], [51339], [49324, 46993], [44256, 47560, 50892],
      [50756, 48317], [52572, 44256], [49457, 44277], [52629, 54616]]"

definition negative_words :: "pystr list" where
  "negative_words =
     [[49836, 54532], [50864, 50872], [55192, 46308], [44340, 47196], [54868, 45208],
      [51676, 51613], [49892, 47581], [44145, 51221], [46160, 47157]]"

definition count_in :: "pystr list \<Rightarrow> pystr \<Rightarrow> nat" where
  "count_in words text = sum_list (map (\<lambda>word. 1) (filter (\<lambda>word. str_in word text) words))"

definition analyze_sentiment :: "(pystr \<Rightarrow> pystr) \<Rightarrow> pystr \<Rightarrow> SentimentType" where
  "analyze_sentiment lower text =
     (let text_lower = lower text;
          positive_count = count_in positive_words text_lower;
          negative_count = count_in negative_words text_lower
      in if positive_count > negative_count then POSITIVE
         else if negative_count > positive_count then NEGATIVE
         else NEUTRAL)"

text \<open>\<open>set_provider\<close>: the result and the service after the call.\<close>

definition valid_providers :: "pystr list" where
  "valid_providers = [ascii ''openai'', ascii ''openrouter'', ascii ''ollama'']"

definition set_provider :: "AIConversationService \<Rightarrow> pystr \<Rightarrow> bool \<times> AIConversationService" where
  "set_provider s provider =
     (if provider \<in> set valid_providers
      then (True, s\<lparr>current_provider := provider, is_initialized := False\<rparr>)
      else (False, s))"

section \<open>Memory service\<close>

text \<open>
  Field names are global here, so a name that two classes of the source share is
  prefixed in one of them: \<open>id\<close>, \<open>user_id\<close> and \<open>metadata\<close> of a \<open>MemoryEntry\<close> are
  \<open>entry_id\<close>, \<open>entry_user_id\<close> and \<open>entry_metadata\<close>; \<open>session_memories\<close> and \<open>user_id\<close>
  of \<open>MemoryStats\<close> are \<open>stats_session_memories\<close> and \<open>stats_user_id\<close>; the flag
  \<open>is_initialized\<close> of the memory service is \<open>memory_initialized\<close>.
\<close>

record 'v MemoryEntry =
  entry_id :: "pystr option"
  content :: pystr
  memory_type :: MemoryType
  entry_user_id :: pystr
  score :: real
  created_at :: datetime
  entry_metadata :: "pystr \<rightharpoonup> 'v"

record 'v MemorySearchResult =
  entries :: "'v MemoryEntry list"
  query :: pystr
  total_count :: int
  search_time :: real

record MemoryStats =
  total_memories :: int
  stats_session_memories :: int
  long_term_enabled :: bool
  stats_user_id :: pystr
  last_updated :: datetime

text \<open>
  The long-term store (mem0) is outside the program. Its state is the list of the
  \<open>add\<close> requests it has accepted: a conversation (messages, user id, metadata) or a
  preference (messages, user id, category). A call of \<open>add\<close> succeeds or raises; a call
  of \<open>search\<close> raises or returns a reply, of which the service reads the \<open>results\<close>
  entry when there is one. A reply on which the test \<open>"results" in result\<close> raises is
  \<open>ReplyInvalid\<close>; an element of the results without a \<open>get\<close> method is \<open>RawInvalid\<close>.
\<close>

datatype 'v mem0_item =
    ConversationItem "chat_message list" pystr "pystr \<rightharpoonup> 'v"
  | PreferenceItem "chat_message list" pystr pystr

datatype 'v raw_result =
    RawInvalid
  | RawResult "pystr option" "pystr option" "real option" "(pystr \<rightharpoonup> 'v) option"

datatype 'v search_reply = ReplyInvalid | ReplyWithoutResults | ReplyResults "'v raw_result list"

datatype 'v search_outcome = SearchRaises | SearchReturns "'v search_reply"

record 'v mem0 =
  add_succeeds :: "'v mem0_item list \<Rightarrow> 'v mem0_item \<Rightarrow> bool"
  search :: "'v mem0_item list \<Rightarrow> pystr \<Rightarrow> pystr \<Rightarrow> int \<Rightarrow> 'v search_outcome"

record 'v MemoryService =
  user_id :: pystr
  memory :: "'v mem0_item list"
  session_memories :: "'v ConversationEntry list"
  memory_initialized :: bool

record MemoryConfig =
  max_session_memories :: int
  search_limit :: int

text \<open>
  The part that both branches of \<open>add_conversation\<close> share: build the entry, append it
  and keep the last \<open>max_session_memories\<close> entries when there are more. \<open>metadata or {}\<close>
  is the given dictionary, or the empty one for \<open>None\<close>.
\<close>

definition append_session ::
  "MemoryConfig \<Rightarrow> datetime \<Rightarrow> 'v MemoryService \<Rightarrow> pystr \<Rightarrow> pystr \<Rightarrow> (pystr \<rightharpoonup> 'v) option
   \<Rightarrow> 'v MemoryService" where
  "append_session cfg now s user_msg assistant_reply meta =
     (let entry = \<lparr>user_message = user_msg, assistant_response = assistant_reply,
                    sentiment = NEUTRAL, timestamp = now,
                    metadata = (case meta of None \<Rightarrow> Map.empty | Some m \<Rightarrow> m)\<rparr>;
          appended = session_memories s @ [entry]
      in s\<lparr>session_memories :=
             (if int (length appended) > max_session_memories cfg
              then slice_last (max_session_memories cfg) appended
              else appended)\<rparr>)"

text \<open>
  \<open>add_conversation\<close>. An exception of the store is caught and ignored; nothing else
  in the body raises on arguments of the annotated types, so the handler that returns
  \<open>False\<close> has no branch here.
\<close>

definition add_conversation ::
  "'v mem0 \<Rightarrow> MemoryConfig \<Rightarrow> datetime \<Rightarrow> 'v MemoryService \<Rightarrow> pystr \<Rightarrow> pystr
   \<Rightarrow> (pystr \<rightharpoonup> 'v) option \<Rightarrow> bool \<times> 'v MemoryService" where
  "add_conversation store cfg now s user_msg assistant_reply meta =
     (if \<not> memory_initialized s then
        (True, append_session cfg now s user_msg assistant_reply meta)
      else
        let item = ConversationItem
                     [ChatMessage (ascii ''user'') user_msg,
                      ChatMessage (ascii ''assistant'') assistant_reply]
                     (user_id s)
                     (case meta of None \<Rightarrow> Map.empty | Some m \<Rightarrow> m);
            s1 = (if add_succeeds store (memory s) item
                  then s\<lparr>memory := memory s @ [item]\<rparr> else s)
        in (True, append_session cfg now s1 user_msg assistant_reply meta))"

text \<open>
  \<open>_search_session_memories\<close>: scan the last twenty session entries. \<open>clock k\<close> is the
  reading of \<open>datetime.now()\<close> for the \<open>k\<close>-th \<open>MemoryEntry\<close> that the call creates.
\<close>

fun session_matches ::
  "(pystr \<Rightarrow> pystr) \<Rightarrow> (nat \<Rightarrow> datetime) \<Rightarrow> nat \<Rightarrow> pystr \<Rightarrow> pystr
   \<Rightarrow> 'v ConversationEntry list \<Rightarrow> 'v MemoryEntry list" where
  "session_matches lower clock k uid query_lower [] = []"
| "session_matches lower clock k uid query_lower (m # ms) =
     (let user_text = lower (user_message m);
          assistant_text = lower (assistant_response m)
      in if str_in query_lower user_text \<or> str_in query_lower assistant_text then
           \<lparr>entry_id = None,
            content = [49324, 50857, 51088, 58, 32] @ user_message m @ [10, 65, 73, 58, 32]
                      @ assistant_response m,
            memory_type = CONVERSATION, entry_user_id = uid, score = 8 / 10,
            created_at = clock k, entry_metadata = metadata m\<rparr>
           # session_matches lower clock (Suc k) uid query_lower ms
         else session_matches lower clock k uid query_lower ms)"

definition search_session_memories ::
  "(pystr \<Rightarrow> pystr) \<Rightarrow> (nat \<Rightarrow> datetime) \<Rightarrow> nat \<Rightarrow> 'v MemoryService \<Rightarrow> pystr \<Rightarrow> int
   \<Rightarrow> 'v MemoryEntry list" where
  "search_session_memories lower clock k s q limit =
     slice_first limit
       (session_matches lower clock k (user_id s) (lower q) (slice_last 20 (session_memories s)))"

text \<open>
  The entries built from the results of the store: \<open>Inl k\<close> when an element raises
  after \<open>k\<close> entries have been created in the call.
\<close>

fun result_entries ::
  "(nat \<Rightarrow> datetime) \<Rightarrow> nat \<Rightarrow> pystr \<Rightarrow> 'v raw_result list \<Rightarrow> nat + 'v MemoryEntry list" where
  "result_entries clock k uid [] = Inr []"
| "result_entries clock k uid (RawInvalid # rest) = Inl k"
| "result_entries clock k uid (RawResult rid rmemory rscore rmeta # rest) =
     (case result_entries clock (Suc k) uid rest of
        Inl j \<Rightarrow> Inl j
      | Inr es \<Rightarrow>
          Inr (\<lparr>entry_id = rid,
                content = (case rmemory of None \<Rightarrow> [] | Some text \<Rightarrow> text),
                memory_type = CONVERSATION, entry_user_id = uid,
                score = (case rscore of None \<Rightarrow> 0 | Some x \<Rightarrow> x),
                created_at = clock k,
                entry_metadata = (case rmeta of None \<Rightarrow> Map.empty | Some m \<Rightarrow> m)\<rparr> # es))"

definition search_result :: "'v MemoryEntry list \<Rightarrow> pystr \<Rightarrow> real \<Rightarrow> 'v MemorySearchResult" where
  "search_result es q elapsed =
     \<lparr>entries = es, query = q, total_count = int (length es), search_time = elapsed\<rparr>"

text \<open>
  \<open>search_memories\<close>; \<open>elapsed\<close> is the duration that the call measures between its two
  readings of the clock.
\<close>

definition search_memories ::
  "(pystr \<Rightarrow> pystr) \<Rightarrow> (nat \<Rightarrow> datetime) \<Rightarrow> real \<Rightarrow> 'v mem0 \<Rightarrow> 'v MemoryService \<Rightarrow> pystr \<Rightarrow> int
   \<Rightarrow> 'v MemorySearchResult" where
  "search_memories lower clock elapsed store s q limit =
     (if \<not> memory_initialized s then
        search_result (search_session_memories lower clock 0 s q limit) q elapsed
      else
        case search store (memory s) q (user_id s) limit of
          SearchRaises \<Rightarrow>
            search_result (search_session_memories lower clock 0 s q limit) q elapsed
        | SearchReturns ReplyInvalid \<Rightarrow>
            search_result (search_session_memories lower clock 0 s q limit) q elapsed
        | SearchReturns ReplyWithoutResults \<Rightarrow> search_result [] q elapsed
        | SearchReturns (ReplyResults raw) \<Rightarrow>
            (case result_entries clock 0 (user_id s) raw of
               Inl k \<Rightarrow> search_result (search_session_memories lower clock k s q limit) q elapsed
             | Inr es \<Rightarrow> search_result es q elapsed))"

text \<open>\<open>add_user_preference\<close>, \<open>clear_session_memory\<close> and \<open>get_memory_stats\<close>.\<close>

definition add_user_preference ::
  "'v mem0 \<Rightarrow> 'v MemoryService \<Rightarrow> pystr \<Rightarrow> pystr \<Rightarrow> bool \<times> 'v MemoryService" where
  "add_user_preference store s preference_type preference_value =
     (if \<not> memory_initialized s then (False, s)
      else
        let preference_text =
              [49324, 50857, 51088, 32, 49440, 54840, 46020, 58, 32] @ preference_type
              @ ascii '' = '' @ preference_value;
            item = PreferenceItem [ChatMessage (ascii ''system'') preference_text]
                     (user_id s) preference_type
        in (True, if add_succeeds store (memory s) item
                  then s\<lparr>memory := memory s @ [item]\<rparr> else s))"

definition clear_session_memory :: "'v MemoryService \<Rightarrow> bool \<times> 'v MemoryService" where
  "clear_session_memory s = (True, s\<lparr>session_memories := []\<rparr>)"

definition get_memory_stats :: "datetime \<Rightarrow> 'v MemoryService \<Rightarrow> MemoryStats" where
  "get_memory_stats now s =
     \<lparr>total_memories = 0,
      stats_session_memories = int (length (session_memories s)),
      long_term_enabled = memory_initialized s,
      stats_user_id = user_id s,
      last_updated = now\<rparr>"

section \<open>Personality service\<close>

text \<open>
  \<open>PERSONALITY_TRAITS\<close> maps each personality type to its bundle. The bundle is
  modelled with the entries that \<open>get_personality_info\<close> reads; the lists of phrases
  are read by the greeting and prefix functions only.
\<close>

record Traits =
  trait_name :: pystr
  description :: pystr
  response_style :: pystr

definition caring_traits :: Traits where
  "caring_traits =
     \<lparr>trait_name =
        [46028, 48388, 51060],
      description =
        [46384, 46907, 54616, 44256, 32, 48372, 49332, 54588, 45716, 32, 49457, 44201],
      response_style =
        [46384, 46907, 54616, 44256, 32, 48372, 49332, 54588, 45716, 32, 53668, 51004,
         47196, 44, 32, 49324, 50857, 51088, 51032, 32, 44048, 51221, 51012, 32, 50864,
         49440, 49884, 54616, 47728]\<rparr>"

definition playful_traits :: Traits where
  "playful_traits =
     \<lparr>trait_name =
        [51109, 45212, 44984, 47084, 44592],
      description =
        [51109, 45212, 49828, 47101, 44256, 32, 50976, 47672, 47084, 49828, 54620, 32,
         49457, 44201],
      response_style =
        [51109, 45212, 49828, 47101, 44256, 32, 51116, 48120, 51080, 45716, 32, 53668,
         51004, 47196, 44, 32, 50976, 47672, 47484, 32, 49438, 50612, 44032, 47728]\<rparr>"

definition intellectual_traits :: Traits where
  "intellectual_traits =
     \<lparr>trait_name =
        [54788, 51088],
      description =
        [51648, 51201, 51060, 44256, 32, 49324, 47140, 44618, 51008, 32, 49457, 44201],
      response_style =
        [51648, 51201, 51060, 44256, 32, 49324, 47140, 44618, 51008, 32, 53668, 51004,
         47196, 44, 32, 44618, 51060, 32, 51080, 45716, 32, 45824, 54868, 47484, 32, 51648,
         54693, 54616, 47728]\<rparr>"

definition romantic_traits :: Traits where
  "romantic_traits =
     \<lparr>trait_name =
        [47196, 47592, 54001],
      description =
        [47196, 47592, 54001, 54616, 44256, 32, 50528, 51221, 54364, 54788, 51060, 32,
         54413, 48512, 54620, 32, 49457, 44201],
      response_style =
        [47196, 47592, 54001, 54616, 44256, 32, 50528, 51221, 32, 54364, 54788, 51060, 32,
         54413, 48512, 54620, 32, 53668, 51004, 47196]\<rparr>"
definition PERSONALITY_TRAITS :: "(PersonalityType \<times> Traits) list" where
  "PERSONALITY_TRAITS =
     [(CARING, caring_traits), (PLAYFUL, playful_traits),
      (INTELLECTUAL, intellectual_traits), (ROMANTIC, romantic_traits)]"

fun personality_value :: "PersonalityType \<Rightarrow> pystr" where
  "personality_value CARING = ascii ''caring''"
| "personality_value PLAYFUL = ascii ''playful''"
| "personality_value INTELLECTUAL = ascii ''intellectual''"
| "personality_value ROMANTIC = ascii ''romantic''"

text \<open>
  One element of \<open>conversation_context\<close>: the message, the value of the sentiment and
  the ISO timestamp.
\<close>

record ContextItem =
  context_message :: pystr
  context_sentiment :: pystr
  context_timestamp :: pystr

text \<open>
  The current personality type is annotated \<open>PersonalityType\<close>, which Python does not
  enforce: \<open>Member t\<close> is a member of the enumeration, and \<open>Other x\<close> a value of another
  type (a string, \<open>None\<close>, a number): hashable, no key of \<open>PERSONALITY_TRAITS\<close> and
  without an attribute \<open>value\<close>.
\<close>

datatype 'a personality_arg = Member PersonalityType | Other 'a

record 'a PersonalityService =
  personality_type :: "'a personality_arg"
  mood_level :: real
  interaction_count :: int
  conversation_context :: "ContextItem list"

text \<open>
  \<open>mood_level\<close> is a Python float. A float literal and the result of a float addition
  or subtraction are the exact value rounded to a float; the rounding is the parameter
  \<open>fl\<close> of the functions below.
\<close>

definition init_personality ::
  "(real \<Rightarrow> real) \<Rightarrow> 'a personality_arg \<Rightarrow> 'a PersonalityService" where
  "init_personality fl t =
     \<lparr>personality_type = t, mood_level = fl (8 / 10), interaction_count = 0,
      conversation_context = []\<rparr>"

definition update_interaction ::
  "(real \<Rightarrow> real) \<Rightarrow> datetime \<Rightarrow> 'a PersonalityService \<Rightarrow> pystr \<Rightarrow> SentimentType
   \<Rightarrow> 'a PersonalityService" where
  "update_interaction fl now s user_msg user_sentiment =
     (let appended = conversation_context s
                     @ [\<lparr>context_message = user_msg,
                         context_sentiment = sentiment_value user_sentiment,
                         context_timestamp = isoformat now\<rparr>];
          context = (if length appended > 10 then slice_last 10 appended else appended);
          mood = (if user_sentiment = POSITIVE
                  then min (fl 1) (fl (mood_level s + fl (1 / 10)))
                  else if user_sentiment = NEGATIVE
                  then max (fl (2 / 10)) (fl (mood_level s - fl (5 / 100)))
                  else mood_level s)
      in s\<lparr>interaction_count := interaction_count s + 1,
            conversation_context := context,
            mood_level := mood\<rparr>)"

text \<open>
  \<open>change_personality\<close>: the membership test \<open>new_personality in PERSONALITY_TRAITS\<close>,
  the assignment, and the log line that reads \<open>old_personality.value\<close>, which raises
  \<open>AttributeError\<close> after the assignment when the old type is no member of the
  enumeration.
\<close>

fun in_traits :: "'a personality_arg \<Rightarrow> bool" where
  "in_traits (Member t) = (map_of PERSONALITY_TRAITS t \<noteq> None)"
| "in_traits (Other x) = False"

definition change_personality ::
  "'a PersonalityService \<Rightarrow> 'a personality_arg \<Rightarrow> (py_error + bool) \<times> 'a PersonalityService" where
  "change_personality s new_personality =
     (if in_traits new_personality then
        (case personality_type s of
           Member old_personality \<Rightarrow> (Inr True, s\<lparr>personality_type := new_personality\<rparr>)
         | Other x \<Rightarrow> (Inl AttributeError, s\<lparr>personality_type := new_personality\<rparr>))
      else (Inr False, s))"

text \<open>\<open>get_personality_info\<close>, which resets a type without a bundle to \<open>CARING\<close>.\<close>

record PersonalityInfo =
  info_type :: pystr
  info_name :: pystr
  info_description :: pystr
  info_response_style :: pystr

definition get_personality_info ::
  "'a PersonalityService \<Rightarrow> (py_error + PersonalityInfo) \<times> 'a PersonalityService" where
  "get_personality_info s =
     (let s1 = (if \<not> in_traits (personality_type s)
                then s\<lparr>personality_type := Member CARING\<rparr> else s)
      in case personality_type s1 of
           Other x \<Rightarrow> (Inl KeyError, s1)
         | Member t \<Rightarrow>
             (case map_of PERSONALITY_TRAITS t of
                None \<Rightarrow> (Inl KeyError, s1)
              | Some traits \<Rightarrow>
                  (Inr \<lparr>info_type = personality_value t,
                        info_name = trait_name traits,
                        info_description = description traits,
                        info_response_style = response_style traits\<rparr>, s1)))"

text \<open>The calls that write to the service, and a run of them.\<close>

datatype 'a personality_call =
    UpdateInteraction pystr SentimentType datetime
  | ChangePersonality "'a personality_arg"
  | GetPersonalityInfo

fun personality_step ::
  "(real \<Rightarrow> real) \<Rightarrow> 'a PersonalityService \<Rightarrow> 'a personality_call \<Rightarrow> 'a PersonalityService" where
  "personality_step fl s (UpdateInteraction user_msg user_sentiment now) =
     update_interaction fl now s user_msg user_sentiment"
| "personality_step fl s (ChangePersonality new_personality) =
     snd (change_personality s new_personality)"
| "personality_step fl s GetPersonalityInfo = snd (get_personality_info s)"

definition personality_run ::
  "(real \<Rightarrow> real) \<Rightarrow> 'a PersonalityService \<Rightarrow> 'a personality_call list
   \<Rightarrow> 'a PersonalityService" where
  "personality_run fl s calls = foldl (personality_step fl) s calls"

section \<open>Serialising a conversation entry\<close>

text \<open>
  The dictionary of \<open>to_dict\<close> has string keys; a value is a string or a metadata
  dictionary. \<open>from_dict\<close> reads the keys in the order of the source and fails as the
  source does: \<open>KeyError\<close> for a missing key, \<open>ValueError\<close> for a sentiment or a timestamp
  that does not parse, \<open>TypeError\<close> for a timestamp that is no string. A dictionary
  that would give an entry outside the annotated field types is \<open>TypeError\<close> here.
\<close>

datatype 'v dict_value = StrValue pystr | DictValue "pystr \<rightharpoonup> 'v"

definition to_dict :: "'v ConversationEntry \<Rightarrow> (pystr \<rightharpoonup> 'v dict_value)" where
  "to_dict e =
     [ascii ''user_message'' \<mapsto> StrValue (user_message e),
      ascii ''assistant_response'' \<mapsto> StrValue (assistant_response e),
      ascii ''sentiment'' \<mapsto> StrValue (sentiment_value (sentiment e)),
      ascii ''timestamp'' \<mapsto> StrValue (isoformat (timestamp e)),
      ascii ''metadata'' \<mapsto> DictValue (metadata e)]"

definition from_dict :: "(pystr \<rightharpoonup> 'v dict_value) \<Rightarrow> py_error + 'v ConversationEntry" where
  "from_dict data =
     (case data (ascii ''user_message'') of
        None \<Rightarrow> Inl KeyError
      | Some umv \<Rightarrow>
     (case data (ascii ''assistant_response'') of
        None \<Rightarrow> Inl KeyError
      | Some arv \<Rightarrow>
     (case data (ascii ''sentiment'') of
        None \<Rightarrow> Inl KeyError
      | Some sv \<Rightarrow>
     (case (case sv of StrValue text \<Rightarrow> sentiment_of_value text
                     | DictValue d \<Rightarrow> Inl ValueError) of
        Inl e \<Rightarrow> Inl e
      | Inr se \<Rightarrow>
     (case data (ascii ''timestamp'') of
        None \<Rightarrow> Inl KeyError
      | Some tv \<Rightarrow>
     (case (case tv of StrValue text \<Rightarrow> fromisoformat text
                     | DictValue d \<Rightarrow> Inl TypeError) of
        Inl e \<Rightarrow> Inl e
      | Inr ts \<Rightarrow>
     (case (umv, arv, data (ascii ''metadata'')) of
        (StrValue um, StrValue ar, None) \<Rightarrow>
          Inr \<lparr>user_message = um, assistant_response = ar, sentiment = se, timestamp = ts,
               metadata = Map.empty\<rparr>
      | (StrValue um, StrValue ar, Some (DictValue d)) \<Rightarrow>
          Inr \<lparr>user_message = um, assistant_response = ar, sentiment = se, timestamp = ts,
               metadata = d\<rparr>
      | _ \<Rightarrow> Inl TypeError)))))))"

section \<open>Auxiliary notions of the proofs\<close>

text \<open>The decimal digits of \<open>n\<close> in a field of exactly \<open>w\<close> characters.\<close>

fun fixed_digits :: "nat \<Rightarrow> nat \<Rightarrow> pystr" where
  "fixed_digits 0 n = []"
| "fixed_digits (Suc w) n = fixed_digits w (n div 10) @ [48 + n mod 10]"

text \<open>The mood level is within the bounds that the service uses.\<close>

definition mood_in_range :: "(real \<Rightarrow> real) \<Rightarrow> 'a PersonalityService \<Rightarrow> bool" where
  "mood_in_range fl s = (fl (2 / 10) \<le> mood_level s \<and> mood_level s \<le> fl 1)"

section \<open>Example values\<close>

text \<open>Concrete services, configurations and provider behaviours for the instances below.\<close>

definition example_time :: datetime where
  "example_time =
     \<lparr>year = 2024, month = 2, day = 29, hour = 9, minute = 5, second = 7, microsecond = 1500\<rparr>"

definition example_ai_config :: AIProviderConfig where
  "example_ai_config =
     \<lparr>openai_model = ascii ''gpt-4o-mini'', openrouter_model = ascii ''openai/gpt-4o-mini'',
      ollama_base_url = ascii ''http://localhost:11434'', temperature = 7 / 10,
      max_tokens = 500\<rparr>"

definition new_stats :: ConversationStats where
  "new_stats = \<lparr>total_conversations = 0, total_tokens_used = 0, last_conversation = None\<rparr>"

definition openrouter_service :: AIConversationService where
  "openrouter_service =
     \<lparr>is_initialized = True, current_provider = ascii ''openrouter'',
      conversation_stats = new_stats\<rparr>"

definition openai_service :: AIConversationService where
  "openai_service =
     \<lparr>is_initialized = True, current_provider = ascii ''openai'',
      conversation_stats = new_stats\<rparr>"

text \<open>
  Providers that are down: the OpenAI client and the Ollama request raise, and
  OpenRouter answers with the HTTP status 500.
\<close>

definition openai_down :: "chat_message list request \<Rightarrow> openai_outcome" where
  "openai_down req = OpenAIRaises"

definition openrouter_500 :: "chat_message list request \<Rightarrow> openrouter_body http_outcome" where
  "openrouter_500 req = Response 500 BodyInvalid"

definition ollama_down :: "pystr request \<Rightarrow> ollama_body http_outcome" where
  "ollama_down req = RequestRaises"

definition providers_down :: providers where
  "providers_down =
     \<lparr>chat_completions_create = openai_down, post_openrouter = openrouter_500,
      post_ollama = ollama_down\<rparr>"

text \<open>
  Providers whose replies cannot be read to the end: the OpenAI completion has no token
  usage, and the body of the OpenRouter answer does not decode.
\<close>

definition openai_no_usage :: "chat_message list request \<Rightarrow> openai_outcome" where
  "openai_no_usage req = OpenAICompletion (Some (ascii ''Hi there'')) None"

definition openrouter_bad_body :: "chat_message list request \<Rightarrow> openrouter_body http_outcome" where
  "openrouter_bad_body req = Response 200 BodyInvalid"

definition providers_unreadable :: providers where
  "providers_unreadable =
     \<lparr>chat_completions_create = openai_no_usage, post_openrouter = openrouter_bad_body,
      post_ollama = ollama_down\<rparr>"

text \<open>Lower-casing of the ASCII letters, which is what \<open>str.lower\<close> does on ASCII text.\<close>

definition ascii_lower :: "pystr \<Rightarrow> pystr" where
  "ascii_lower s = map (\<lambda>c. if 65 \<le> c \<and> c \<le> 90 then c + 32 else c) s"

text \<open>
  A memory service that is not initialised, with two turns in its session buffer, and
  a store whose calls raise.
\<close>

definition cat_turn :: "unit ConversationEntry" where
  "cat_turn =
     \<lparr>user_message = ascii ''My CAT is ill'', assistant_response = ascii ''Poor thing'',
      sentiment = NEUTRAL, timestamp = example_time, metadata = Map.empty\<rparr>"

definition dog_turn :: "unit ConversationEntry" where
  "dog_turn =
     \<lparr>user_message = ascii ''I walked the dog'', assistant_response = ascii ''Nice'',
      sentiment = NEUTRAL, timestamp = example_time, metadata = Map.empty\<rparr>"

definition session_only_service :: "unit MemoryService" where
  "session_only_service =
     \<lparr>user_id = ascii ''default_user'', memory = [], session_memories = [cat_turn, dog_turn],
      memory_initialized = False\<rparr>"

definition add_raises :: "unit mem0_item list \<Rightarrow> unit mem0_item \<Rightarrow> bool" where
  "add_raises items item = False"

definition search_raises :: "unit mem0_item list \<Rightarrow> pystr \<Rightarrow> pystr \<Rightarrow> int \<Rightarrow> unit search_outcome" where
  "search_raises items q uid limit = SearchRaises"

definition store_down :: "unit mem0" where
  "store_down = \<lparr>add_succeeds = add_raises, search = search_raises\<rparr>"

definition fixed_clock :: "nat \<Rightarrow> datetime" where
  "fixed_clock k = example_time"

text \<open>Float arithmetic without rounding error.\<close>

definition exact :: "real \<Rightarrow> real" where
  "exact x = x"

text \<open>A configuration that asks for no session memories at all.\<close>

definition no_session_config :: MemoryConfig where
  "no_session_config = \<lparr>max_session_memories = 0, search_limit = 5\<rparr>"

section \<open>Properties of the AI conversation service\<close>

subsection \<open>The substring test\<close>

lemma startswith_prefix: "startswith t w \<longleftrightarrow> prefix w t"
  by (induction t w rule: startswith.induct) auto

lemma str_in_sublist: "str_in w t \<longleftrightarrow> sublist w t"
  by (induction t) (auto simp: startswith_prefix sublist_Cons_right)

lemma count_in_card:
  assumes "distinct words"
  shows "count_in words t = card {w \<in> set words. sublist w t}"
proof -
  have "count_in words t = length (filter (\<lambda>w. str_in w t) words)"
    unfolding count_in_def by (induction words) auto
  also have "\<dots> = card (set (filter (\<lambda>w. str_in w t) words))"
    using assms by (simp add: distinct_card [symmetric] del: set_filter)
  also have "set (filter (\<lambda>w. str_in w t) words) = {w \<in> set words. sublist w t}"
    by (auto simp: str_in_sublist)
  finally show ?thesis .
qed

lemma positive_words_distinct: "distinct positive_words \<and> length positive_words = 9"
  by (simp add: positive_words_def)

lemma negative_words_distinct: "distinct negative_words \<and> length negative_words = 9"
  by (simp add: negative_words_def)

subsection \<open>Sentiment analysis\<close>

text \<open>
  C5. There are nine positive and nine negative keywords, all different. For every text,
  \<open>analyze_sentiment\<close> is \<open>POSITIVE\<close> exactly when more positive than negative keywords
  occur as substrings of the lower-cased text, \<open>NEGATIVE\<close> exactly when more negative
  than positive ones occur, and \<open>NEUTRAL\<close> exactly when the two numbers are equal. The
  result is a function of the text (and of Python's lower-casing) alone.
\<close>

theorem analyze_sentiment_counts:
  fixes lower :: "pystr \<Rightarrow> pystr" and msg :: pystr
  defines "p \<equiv> card {w \<in> set positive_words. sublist w (lower msg)}"
      and "n \<equiv> card {w \<in> set negative_words. sublist w (lower msg)}"
  shows "length positive_words = 9 \<and> distinct positive_words
       \<and> length negative_words = 9 \<and> distinct negative_words
       \<and> (analyze_sentiment lower msg = POSITIVE \<longleftrightarrow> n < p)
       \<and> (analyze_sentiment lower msg = NEGATIVE \<longleftrightarrow> p < n)
       \<and> (analyze_sentiment lower msg = NEUTRAL \<longleftrightarrow> p = n)"
proof -
  have cp: "count_in positive_words (lower msg) = p"
    unfolding p_def using positive_words_distinct by (simp add: count_in_card)
  have cn: "count_in negative_words (lower msg) = n"
    unfolding n_def using negative_words_distinct by (simp add: count_in_card)
  show ?thesis
    using positive_words_distinct negative_words_distinct
    by (auto simp: analyze_sentiment_def Let_def cp cn)
qed

subsection \<open>The messages of a provider call\<close>

lemma history_messages_concat:
  "history_messages h =
     concat (map (\<lambda>e. [ChatMessage (ascii ''user'') (user_message e),
                         ChatMessage (ascii ''assistant'') (assistant_response e)]) h)"
  by (induction h) auto

lemma length_history_messages: "length (history_messages h) = 2 * length h"
  by (induction h) auto

text \<open>
  C2. For a history \<open>h\<close>, the message list is the system message with the system prompt,
  then the last \<open>min (length h) 10\<close> entries of \<open>h\<close> in their order, each as a user
  message followed by an assistant message, then the current user message; it has
  \<open>2 * min (length h) 10 + 2\<close> elements. Without a history it is the system message and
  the user message.
\<close>

theorem build_messages_window:
  fixes h :: "'v ConversationEntry list"
  defines "window \<equiv> drop (length h - min (length h) 10) h"
  shows "build_messages system_prompt (Some h) user_msg =
           [ChatMessage (ascii ''system'') system_prompt]
           @ concat (map (\<lambda>e. [ChatMessage (ascii ''user'') (user_message e),
                                 ChatMessage (ascii ''assistant'') (assistant_response e)]) window)
           @ [ChatMessage (ascii ''user'') user_msg]
       \<and> length window = min (length h) 10
       \<and> length (build_messages system_prompt (Some h) user_msg) = 2 * min (length h) 10 + 2
       \<and> build_messages system_prompt (None :: 'v ConversationEntry list option) user_msg =
           [ChatMessage (ascii ''system'') system_prompt, ChatMessage (ascii ''user'') user_msg]"
proof -
  have w: "slice_last 10 h = window"
    by (simp add: slice_last_def window_def min_def)
  have e: "h = [] \<Longrightarrow> window = []" by (simp add: window_def)
  have lw: "length window = min (length h) 10" by (simp add: window_def)
  have b: "build_messages system_prompt (Some h) user_msg =
           [ChatMessage (ascii ''system'') system_prompt] @ history_messages window
           @ [ChatMessage (ascii ''user'') user_msg]"
    using e by (auto simp: build_messages_def w)
  show ?thesis
    unfolding b
    by (simp add: history_messages_concat [symmetric] length_history_messages lw
        build_messages_def)
qed

subsection \<open>Changing the provider\<close>

text \<open>
  C6. \<open>set_provider s p\<close> returns \<open>True\<close>, makes \<open>p\<close> the current provider and clears the
  initialised flag when \<open>p\<close> is \<open>openai\<close>, \<open>openrouter\<close> or \<open>ollama\<close>; for every other
  string it returns \<open>False\<close> and the service is unchanged.
\<close>

theorem set_provider_valid:
  "set_provider s p =
     (if p = ascii ''openai'' \<or> p = ascii ''openrouter'' \<or> p = ascii ''ollama''
      then (True, s\<lparr>current_provider := p, is_initialized := False\<rparr>)
      else (False, s))"
  by (auto simp: set_provider_def valid_providers_def)

subsection \<open>Degradation of response generation\<close>

lemma any_in_sublist: "any_in words t \<longleftrightarrow> (\<exists>w \<in> set words. sublist w t)"
  by (simp add: any_in_def list_ex_iff str_in_sublist)

lemma fallback_response_scan:
  fixes lower :: "pystr \<Rightarrow> pystr" and user_msg :: pystr and r :: nat
  defines "t \<equiv> lower user_msg"
  shows "fallback_response lower r user_msg =
     (if sublist [50504, 45397] t \<or> sublist (ascii ''hello'') t \<or> sublist (ascii ''hi'') t
      then greeting_reply
      else if sublist [49836, 54532] t \<or> sublist [50864, 50872] t \<or> sublist [55192, 46308] t
      then comfort_reply
      else if sublist [44592, 49240] t \<or> sublist [54665, 48373] t \<or> sublist [51339] t
      then glad_reply
      else if sublist [44256, 47560, 50892] t \<or> sublist [44048, 49324] t
      then thanks_reply
      else if sublist [50504, 45397, 55176] t \<or> sublist (ascii ''bye'') t
              \<or> sublist (ascii ''goodbye'') t
      then farewell_reply
      else if sublist [63] user_msg \<or> sublist [47952] t \<or> sublist [47924, 50631] t
              \<or> sublist [50780] t \<or> sublist [50612, 46523, 44172] t
      then question_reply
      else [default_reply_1, default_reply_2, default_reply_3, default_reply_4,
            default_reply_5] ! (r mod 5))"
proof -
  have g: "any_in greeting_words t \<longleftrightarrow>
      sublist [50504, 45397] t \<or> sublist (ascii ''hello'') t \<or> sublist (ascii ''hi'') t"
    by (simp add: any_in_sublist greeting_words_def)
  have sa: "any_in sad_words t \<longleftrightarrow>
      sublist [49836, 54532] t \<or> sublist [50864, 50872] t \<or> sublist [55192, 46308] t"
    by (simp add: any_in_sublist sad_words_def)
  have gl: "any_in glad_words t \<longleftrightarrow>
      sublist [44592, 49240] t \<or> sublist [54665, 48373] t \<or> sublist [51339] t"
    by (simp add: any_in_sublist glad_words_def)
  have th: "any_in thanks_words t \<longleftrightarrow>
      sublist [44256, 47560, 50892] t \<or> sublist [44048, 49324] t"
    by (simp add: any_in_sublist thanks_words_def)
  have fa: "any_in farewell_words t \<longleftrightarrow>
      sublist [50504, 45397, 55176] t \<or> sublist (ascii ''bye'') t
      \<or> sublist (ascii ''goodbye'') t"
    by (simp add: any_in_sublist farewell_words_def)
  have qu: "any_in question_words t \<longleftrightarrow>
      sublist [47952] t \<or> sublist [47924, 50631] t \<or> sublist [50780] t
      \<or> sublist [50612, 46523, 44172] t"
    by (simp add: any_in_sublist question_words_def)
  have d: "random_choice r default_replies =
      [default_reply_1, default_reply_2, default_reply_3, default_reply_4,
       default_reply_5] ! (r mod 5)"
    by (simp add: random_choice_def default_replies_def)
  show ?thesis
    unfolding fallback_response_def Let_def t_def [symmetric] g sa gl th fa qu d str_in_sublist
    by (simp only: disj_assoc)
qed


text \<open>
  C1 (as amended). When the service is not initialised, or the path of the current
  provider raises, in the call or while the reply is read, \<open>generate_response\<close> returns
  a fallback string. The fallback is chosen by a scan of the lower-cased message for
  keywords: the first of the groups greeting, sadness, gladness, thanks, farewell and
  question with a keyword in the message gives its reply (a question mark in the message
  as typed counts for the last group), and without any keyword the reply is the one of
  the five default replies that the random draw picks. When OpenRouter or Ollama answers
  with an HTTP status other than 200, \<open>generate_response\<close> returns \<open>None\<close>.
\<close>

theorem generate_response_degrades:
  fixes h :: "'v ConversationEntry list option"
    and temp_arg :: "real option" and maxtok_arg :: "int option" and cfg :: AIProviderConfig
    and system_prompt user_msg :: pystr and lower :: "pystr \<Rightarrow> pystr" and r :: nat
    and ext :: providers and now :: datetime and s :: AIConversationService
  defines "temp \<equiv> (case temp_arg of None \<Rightarrow> temperature cfg | Some x \<Rightarrow> x)"
      and "maxtok \<equiv> (case maxtok_arg of None \<Rightarrow> max_tokens cfg | Some m \<Rightarrow> m)"
  defines "openai_reply \<equiv>
             chat_completions_create ext
               \<lparr>req_model = openai_model cfg,
                req_body = build_messages system_prompt h user_msg,
                req_temperature = temp, req_max_tokens = maxtok\<rparr>"
      and "openrouter_reply \<equiv>
             post_openrouter ext
               \<lparr>req_model = openrouter_model cfg,
                req_body = build_messages system_prompt h user_msg,
                req_temperature = temp, req_max_tokens = maxtok\<rparr>"
      and "ollama_reply \<equiv>
             post_ollama ext
               \<lparr>req_model = ascii ''gemma3:1b'',
                req_body = ollama_prompt system_prompt h user_msg,
                req_temperature = temp, req_max_tokens = maxtok\<rparr>"
  defines "result \<equiv>
             generate_response lower r ext cfg now s user_msg system_prompt h temp_arg maxtok_arg"
      and "t \<equiv> lower user_msg"
  shows "(\<not> is_initialized s
          \<or> current_provider s = ascii ''openai''
            \<and> (openai_reply = OpenAIRaises \<or> openai_reply = OpenAICompletion reply None)
          \<or> current_provider s = ascii ''openrouter''
            \<and> (openrouter_reply = RequestRaises \<or> openrouter_reply = Response 200 BodyInvalid
                \<or> openrouter_reply = Response 200 (Body reply UsageInvalid))
          \<or> current_provider s = ascii ''ollama''
            \<and> (ollama_reply = RequestRaises \<or> ollama_reply = Response 200 OllamaBodyInvalid)
          \<longrightarrow> fst result = Some (fallback_response lower r user_msg))
       \<and> (is_initialized s \<and> status_code \<noteq> 200
           \<and> (current_provider s = ascii ''openrouter''
                \<and> openrouter_reply = Response status_code body
              \<or> current_provider s = ascii ''ollama''
                \<and> ollama_reply = Response status_code obody)
          \<longrightarrow> result = (None, s))
       \<and> fallback_response lower r user_msg =
           (if sublist [50504, 45397] t \<or> sublist (ascii ''hello'') t \<or> sublist (ascii ''hi'') t
            then greeting_reply
            else if sublist [49836, 54532] t \<or> sublist [50864, 50872] t
                    \<or> sublist [55192, 46308] t
            then comfort_reply
            else if sublist [44592, 49240] t \<or> sublist [54665, 48373] t \<or> sublist [51339] t
            then glad_reply
            else if sublist [44256, 47560, 50892] t \<or> sublist [44048, 49324] t
            then thanks_reply
            else if sublist [50504, 45397, 55176] t \<or> sublist (ascii ''bye'') t
                    \<or> sublist (ascii ''goodbye'') t
            then farewell_reply
            else if sublist [63] user_msg \<or> sublist [47952] t \<or> sublist [47924, 50631] t
                    \<or> sublist [50780] t \<or> sublist [50612, 46523, 44172] t
            then question_reply
            else [default_reply_1, default_reply_2, default_reply_3, default_reply_4,
                  default_reply_5] ! (r mod 5))"
proof -
  have neq: "ascii ''openrouter'' \<noteq> ascii ''openai''" "ascii ''ollama'' \<noteq> ascii ''openai''"
    "ascii ''ollama'' \<noteq> ascii ''openrouter''"
    by (simp_all add: ascii_def)
  note defs = result_def generate_response_def temp_def maxtok_def
  have a: "fst result = Some (fallback_response lower r user_msg)" if "\<not> is_initialized s"
    using that by (simp add: defs)
  have b: "fst result = Some (fallback_response lower r user_msg)"
    if "current_provider s = ascii ''openai''"
       "openai_reply = OpenAIRaises \<or> openai_reply = OpenAICompletion reply None"
  proof (cases "is_initialized s")
    case False
    then show ?thesis by (rule a)
  next
    case True
    with that show ?thesis
      unfolding defs generate_openai_response_def openai_reply_def
      by (auto simp: Let_def)
  qed
  have c: "fst result = Some (fallback_response lower r user_msg)"
    if "current_provider s = ascii ''openrouter''"
       "openrouter_reply = RequestRaises \<or> openrouter_reply = Response 200 BodyInvalid
        \<or> openrouter_reply = Response 200 (Body reply UsageInvalid)"
  proof (cases "is_initialized s")
    case False
    then show ?thesis by (rule a)
  next
    case True
    with that neq show ?thesis
      unfolding defs generate_openrouter_response_def openrouter_reply_def
      by (auto simp: Let_def)
  qed
  have d: "fst result = Some (fallback_response lower r user_msg)"
    if "current_provider s = ascii ''ollama''"
       "ollama_reply = RequestRaises \<or> ollama_reply = Response 200 OllamaBodyInvalid"
  proof (cases "is_initialized s")
    case False
    then show ?thesis by (rule a)
  next
    case True
    with that neq show ?thesis
      unfolding defs generate_ollama_response_def ollama_reply_def
      by (auto simp: Let_def)
  qed
  have e: "result = (None, s)"
    if "is_initialized s" "status_code \<noteq> 200" "current_provider s = ascii ''openrouter''"
       "openrouter_reply = Response status_code body"
    using that neq unfolding defs generate_openrouter_response_def openrouter_reply_def
    by (simp add: Let_def)
  have f: "result = (None, s)"
    if "is_initialized s" "status_code \<noteq> 200" "current_provider s = ascii ''ollama''"
       "ollama_reply = Response status_code obody"
    using that neq unfolding defs generate_ollama_response_def ollama_reply_def
    by (simp add: Let_def)
  have 1: "\<not> is_initialized s
          \<or> current_provider s = ascii ''openai''
            \<and> (openai_reply = OpenAIRaises \<or> openai_reply = OpenAICompletion reply None)
          \<or> current_provider s = ascii ''openrouter''
            \<and> (openrouter_reply = RequestRaises \<or> openrouter_reply = Response 200 BodyInvalid
                \<or> openrouter_reply = Response 200 (Body reply UsageInvalid))
          \<or> current_provider s = ascii ''ollama''
            \<and> (ollama_reply = RequestRaises \<or> ollama_reply = Response 200 OllamaBodyInvalid)
          \<longrightarrow> fst result = Some (fallback_response lower r user_msg)"
    using a b c d by blast
  have 2: "is_initialized s \<and> status_code \<noteq> 200
           \<and> (current_provider s = ascii ''openrouter''
                \<and> openrouter_reply = Response status_code body
              \<or> current_provider s = ascii ''ollama''
                \<and> ollama_reply = Response status_code obody)
          \<longrightarrow> result = (None, s)"
    using e f by blast
  have 3: "fallback_response lower r user_msg =
           (if sublist [50504, 45397] t \<or> sublist (ascii ''hello'') t \<or> sublist (ascii ''hi'') t
            then greeting_reply
            else if sublist [49836, 54532] t \<or> sublist [50864, 50872] t
                    \<or> sublist [55192, 46308] t
            then comfort_reply
            else if sublist [44592, 49240] t \<or> sublist [54665, 48373] t \<or> sublist [51339] t
            then glad_reply
            else if sublist [44256, 47560, 50892] t \<or> sublist [44048, 49324] t
            then thanks_reply
            else if sublist [50504, 45397, 55176] t \<or> sublist (ascii ''bye'') t
                    \<or> sublist (ascii ''goodbye'') t
            then farewell_reply
            else if sublist [63] user_msg \<or> sublist [47952] t \<or> sublist [47924, 50631] t
                    \<or> sublist [50780] t \<or> sublist [50612, 46523, 44172] t
            then question_reply
            else [default_reply_1, default_reply_2, default_reply_3, default_reply_4,
                  default_reply_5] ! (r mod 5))"
    unfolding t_def by (rule fallback_response_scan)
  from 1 2 3 show ?thesis by (intro conjI)
qed

text \<open>
  Instances: an OpenAI completion without token usage is counted as a conversation and
  then answered with the greeting reply for \<open>Hello\<close>; an OpenRouter body that does not
  decode gives a default reply for a message without keywords; an OpenRouter answer
  with status 500 gives \<open>None\<close>.
\<close>

lemma ascii_lower_hello: "ascii_lower (ascii ''Hello'') = ascii ''hello''"
  by (simp add: ascii_lower_def ascii_def)

lemma hello_fallback: "fallback_response ascii_lower 7 (ascii ''Hello'') = greeting_reply"
  by (simp add: fallback_response_def any_in_def greeting_words_def ascii_lower_def ascii_def)

lemma no_keyword_fallback:
  "fallback_response ascii_lower 7 (ascii ''Tell me more'') = default_reply_3"
  by (simp add: fallback_response_def any_in_def greeting_words_def sad_words_def
      glad_words_def thanks_words_def farewell_words_def question_words_def
      random_choice_def default_replies_def ascii_lower_def ascii_def)

theorem generate_response_degrades_witness:
  "generate_response ascii_lower 7 providers_unreadable example_ai_config example_time
     openai_service (ascii ''Hello'') (ascii ''Be kind'')
     (None :: unit ConversationEntry list option) None None
     = (Some greeting_reply,
        openai_service\<lparr>conversation_stats := new_stats\<lparr>total_conversations := 1\<rparr>\<rparr>)
   \<and> fst (generate_response ascii_lower 7 providers_unreadable example_ai_config example_time
          openrouter_service (ascii ''Tell me more'') (ascii ''Be kind'')
          (None :: unit ConversationEntry list option) None None)
     = Some default_reply_3
   \<and> generate_response ascii_lower 7 providers_down example_ai_config example_time
       openrouter_service (ascii ''Hello'') (ascii ''Be kind'')
       (None :: unit ConversationEntry list option) None None
     = (None, openrouter_service)"
proof -
  have neq: "ascii ''openrouter'' \<noteq> ascii ''openai''" by (simp add: ascii_def)
  have st: "snd (generate_response ascii_lower 7 providers_unreadable example_ai_config
                  example_time openai_service (ascii ''Hello'') (ascii ''Be kind'')
                  (None :: unit ConversationEntry list option) None None)
            = openai_service\<lparr>conversation_stats := new_stats\<lparr>total_conversations := 1\<rparr>\<rparr>"
    by (simp add: generate_response_def generate_openai_response_def openai_service_def
        providers_unreadable_def openai_no_usage_def new_stats_def Let_def)
  have "fst (generate_response ascii_lower 7 providers_unreadable example_ai_config
               example_time openai_service (ascii ''Hello'') (ascii ''Be kind'')
               (None :: unit ConversationEntry list option) None None)
        = Some greeting_reply"
    using generate_response_degrades [where s = openai_service and ext = providers_unreadable
        and lower = ascii_lower and r = 7 and cfg = example_ai_config and now = example_time
        and user_msg = "ascii ''Hello''" and system_prompt = "ascii ''Be kind''"
        and h = "None :: unit ConversationEntry list option"
        and temp_arg = None and maxtok_arg = None and reply = "Some (ascii ''Hi there'')"]
    by (simp add: openai_service_def providers_unreadable_def openai_no_usage_def
        hello_fallback)
  with st have 1: "generate_response ascii_lower 7 providers_unreadable example_ai_config
             example_time openai_service (ascii ''Hello'') (ascii ''Be kind'')
             (None :: unit ConversationEntry list option) None None
           = (Some greeting_reply,
              openai_service\<lparr>conversation_stats := new_stats\<lparr>total_conversations := 1\<rparr>\<rparr>)"
    by (simp add: prod_eq_iff)
  have 2: "fst (generate_response ascii_lower 7 providers_unreadable example_ai_config
             example_time openrouter_service (ascii ''Tell me more'') (ascii ''Be kind'')
             (None :: unit ConversationEntry list option) None None)
           = Some default_reply_3"
    using neq generate_response_degrades [where s = openrouter_service
        and ext = providers_unreadable
        and lower = ascii_lower and r = 7 and cfg = example_ai_config and now = example_time
        and user_msg = "ascii ''Tell me more''" and system_prompt = "ascii ''Be kind''"
        and h = "None :: unit ConversationEntry list option"
        and temp_arg = None and maxtok_arg = None]
    by (simp add: openrouter_service_def providers_unreadable_def openrouter_bad_body_def
        no_keyword_fallback)
  have 3: "generate_response ascii_lower 7 providers_down example_ai_config example_time
             openrouter_service (ascii ''Hello'') (ascii ''Be kind'')
             (None :: unit ConversationEntry list option) None None
           = (None, openrouter_service)"
    using neq generate_response_degrades [where s = openrouter_service and ext = providers_down
        and lower = ascii_lower and r = 7 and cfg = example_ai_config and now = example_time
        and user_msg = "ascii ''Hello''" and system_prompt = "ascii ''Be kind''"
        and h = "None :: unit ConversationEntry list option"
        and temp_arg = None and maxtok_arg = None and status_code = 500 and body = BodyInvalid]
    by (simp add: openrouter_service_def providers_down_def openrouter_500_def)
  from 1 2 3 show ?thesis by (intro conjI)
qed

text \<open>
  The claim as first stated fails: an initialised service whose provider returns an
  error status returns \<open>None\<close>, not a fallback string.
\<close>

theorem generate_response_http_error_counterexample:
  "is_initialized openrouter_service
   \<and> post_openrouter providers_down
        \<lparr>req_model = openrouter_model example_ai_config,
         req_body = build_messages (ascii ''Be kind'')
                      (None :: unit ConversationEntry list option) (ascii ''Hello''),
         req_temperature = temperature example_ai_config,
         req_max_tokens = max_tokens example_ai_config\<rparr> = Response 500 BodyInvalid
   \<and> fst (generate_response ascii_lower 7 providers_down example_ai_config example_time
            openrouter_service (ascii ''Hello'') (ascii ''Be kind'')
            (None :: unit ConversationEntry list option) None None) = None"
proof -
  have neq: "ascii ''openrouter'' \<noteq> ascii ''openai''" by (simp add: ascii_def)
  show ?thesis
    using neq
    by (simp add: generate_response_def generate_openrouter_response_def openrouter_service_def
        providers_down_def openrouter_500_def Let_def)
qed

section \<open>Properties of the memory service\<close>

subsection \<open>Memory statistics\<close>

text \<open>
  C9. Whatever the long-term store holds, \<open>get_memory_stats\<close> reports \<open>total_memories\<close>
  as 0, \<open>session_memories\<close> as the length of the session buffer and \<open>long_term_enabled\<close>
  as the initialised flag.
\<close>

theorem get_memory_stats_total:
  "total_memories (get_memory_stats now (s\<lparr>memory := items\<rparr>)) = 0
   \<and> stats_session_memories (get_memory_stats now (s\<lparr>memory := items\<rparr>))
       = int (length (session_memories s))
   \<and> long_term_enabled (get_memory_stats now (s\<lparr>memory := items\<rparr>)) = memory_initialized s"
  by (simp add: get_memory_stats_def)

subsection \<open>Searching with the session fallback\<close>

lemma set_slice_first: "set (slice_first n xs) \<subseteq> set xs"
  by (auto simp: slice_first_def dest: in_set_takeD)

lemma set_slice_last: "set (slice_last n xs) \<subseteq> set xs"
  by (auto simp: slice_last_def dest: in_set_dropD)

lemma session_matches_origin:
  "e \<in> set (session_matches lower clock k uid ql ms) \<Longrightarrow>
   \<exists>m \<in> set ms.
     content e = [49324, 50857, 51088, 58, 32] @ user_message m @ [10, 65, 73, 58, 32]
                 @ assistant_response m
     \<and> entry_metadata e = metadata m \<and> entry_user_id e = uid \<and> score e = 8 / 10
     \<and> (str_in ql (lower (user_message m)) \<or> str_in ql (lower (assistant_response m)))"
proof (induction ms arbitrary: k)
  case Nil
  then show ?case by simp
next
  case (Cons m ms)
  show ?case
  proof (cases "str_in ql (lower (user_message m)) \<or> str_in ql (lower (assistant_response m))")
    case True
    with Cons.prems have
      "e = \<lparr>entry_id = None,
            content = [49324, 50857, 51088, 58, 32] @ user_message m @ [10, 65, 73, 58, 32]
                      @ assistant_response m,
            memory_type = CONVERSATION, entry_user_id = uid, score = 8 / 10,
            created_at = clock k, entry_metadata = metadata m\<rparr>
       \<or> e \<in> set (session_matches lower clock (Suc k) uid ql ms)"
      by (auto simp: Let_def)
    then show ?thesis
    proof
      assume "e = \<lparr>entry_id = None,
            content = [49324, 50857, 51088, 58, 32] @ user_message m @ [10, 65, 73, 58, 32]
                      @ assistant_response m,
            memory_type = CONVERSATION, entry_user_id = uid, score = 8 / 10,
            created_at = clock k, entry_metadata = metadata m\<rparr>"
      with True show ?thesis by auto
    next
      assume "e \<in> set (session_matches lower clock (Suc k) uid ql ms)"
      from Cons.IH [OF this] show ?thesis by auto
    qed
  next
    case False
    with Cons.prems have "e \<in> set (session_matches lower clock k uid ql ms)"
      by (auto simp: Let_def)
    from Cons.IH [OF this] show ?thesis by auto
  qed
qed

lemma search_session_origin:
  assumes "e \<in> set (search_session_memories lower clock k s q limit)"
  shows "\<exists>m \<in> set (session_memories s).
     content e = [49324, 50857, 51088, 58, 32] @ user_message m @ [10, 65, 73, 58, 32]
                 @ assistant_response m
     \<and> entry_metadata e = metadata m \<and> entry_user_id e = user_id s \<and> score e = 8 / 10
     \<and> (str_in (lower q) (lower (user_message m))
         \<or> str_in (lower q) (lower (assistant_response m)))"
proof -
  from assms have "e \<in> set (session_matches lower clock k (user_id s) (lower q)
                     (slice_last 20 (session_memories s)))"
    unfolding search_session_memories_def by (rule subsetD [OF set_slice_first])
  from session_matches_origin [OF this] obtain m where
    m: "m \<in> set (slice_last 20 (session_memories s))"
    and p: "content e = [49324, 50857, 51088, 58, 32] @ user_message m @ [10, 65, 73, 58, 32]
                 @ assistant_response m
     \<and> entry_metadata e = metadata m \<and> entry_user_id e = user_id s \<and> score e = 8 / 10
     \<and> (str_in (lower q) (lower (user_message m))
         \<or> str_in (lower q) (lower (assistant_response m)))"
    by (elim bexE)
  from m have "m \<in> set (session_memories s)"
    by (rule subsetD [OF set_slice_last])
  then show ?thesis using p by (rule bexI [rotated])
qed

text \<open>
  C3. When the long-term store is not initialised, or its search raises, the result of
  \<open>search_memories\<close> holds the entries of the session search for the query, the query
  itself, and the number of those entries as \<open>total_count\<close>. Each entry is built from a
  session turn whose lower-cased user message or assistant response contains the
  lower-cased query.
\<close>

theorem search_memories_falls_back:
  fixes s :: "'v MemoryService"
  assumes "\<not> memory_initialized s \<or> search store (memory s) q (user_id s) limit = SearchRaises"
  shows "search_memories lower clock elapsed store s q limit =
           \<lparr>entries = search_session_memories lower clock 0 s q limit, query = q,
            total_count = int (length (search_session_memories lower clock 0 s q limit)),
            search_time = elapsed\<rparr>
       \<and> (\<forall>e \<in> set (entries (search_memories lower clock elapsed store s q limit)).
            \<exists>m \<in> set (session_memories s).
              content e = [49324, 50857, 51088, 58, 32] @ user_message m @ [10, 65, 73, 58, 32]
                          @ assistant_response m
              \<and> entry_metadata e = metadata m
              \<and> (str_in (lower q) (lower (user_message m))
                  \<or> str_in (lower q) (lower (assistant_response m))))"
proof -
  have eq: "search_memories lower clock elapsed store s q limit =
           \<lparr>entries = search_session_memories lower clock 0 s q limit, query = q,
            total_count = int (length (search_session_memories lower clock 0 s q limit)),
            search_time = elapsed\<rparr>"
  proof (cases "memory_initialized s")
    case False
    then show ?thesis by (simp add: search_memories_def search_result_def)
  next
    case True
    with assms have "search store (memory s) q (user_id s) limit = SearchRaises" by simp
    with True show ?thesis by (simp add: search_memories_def search_result_def)
  qed
  have origin: "\<exists>m \<in> set (session_memories s).
              content e = [49324, 50857, 51088, 58, 32] @ user_message m @ [10, 65, 73, 58, 32]
                          @ assistant_response m
              \<and> entry_metadata e = metadata m
              \<and> (str_in (lower q) (lower (user_message m))
                  \<or> str_in (lower q) (lower (assistant_response m)))"
    if "e \<in> set (search_session_memories lower clock 0 s q limit)" for e
  proof -
    from search_session_origin [OF that] obtain m where
      "m \<in> set (session_memories s)"
      "content e = [49324, 50857, 51088, 58, 32] @ user_message m @ [10, 65, 73, 58, 32]
                 @ assistant_response m
       \<and> entry_metadata e = metadata m \<and> entry_user_id e = user_id s \<and> score e = 8 / 10
       \<and> (str_in (lower q) (lower (user_message m))
         \<or> str_in (lower q) (lower (assistant_response m)))"
      by (elim bexE)
    then show ?thesis by (intro bexI [of _ m]) simp_all
  qed
  have all: "\<forall>e \<in> set (search_session_memories lower clock 0 s q limit).
            \<exists>m \<in> set (session_memories s).
              content e = [49324, 50857, 51088, 58, 32] @ user_message m @ [10, 65, 73, 58, 32]
                          @ assistant_response m
              \<and> entry_metadata e = metadata m
              \<and> (str_in (lower q) (lower (user_message m))
                  \<or> str_in (lower q) (lower (assistant_response m)))"
    using origin by (rule ballI)
  have ent: "entries (search_memories lower clock elapsed store s q limit)
             = search_session_memories lower clock 0 s q limit"
    by (simp add: eq)
  show ?thesis
    unfolding ent using eq all by (intro conjI)
qed

text \<open>
  An instance: a service that is not initialised finds the one turn that mentions the
  query, whatever its case.
\<close>

theorem search_memories_falls_back_witness:
  "entries (search_memories ascii_lower fixed_clock 0 store_down session_only_service
              (ascii ''Cat'') 5)
     = [\<lparr>entry_id = None,
         content = [49324, 50857, 51088, 58, 32] @ ascii ''My CAT is ill'' @ [10, 65, 73, 58, 32]
                   @ ascii ''Poor thing'',
         memory_type = CONVERSATION, entry_user_id = ascii ''default_user'', score = 8 / 10,
         created_at = example_time, entry_metadata = Map.empty\<rparr>]
   \<and> query (search_memories ascii_lower fixed_clock 0 store_down session_only_service
              (ascii ''Cat'') 5) = ascii ''Cat''
   \<and> total_count (search_memories ascii_lower fixed_clock 0 store_down session_only_service
              (ascii ''Cat'') 5) = 1"
proof -
  have s: "search_session_memories ascii_lower fixed_clock 0 session_only_service (ascii ''Cat'') 5
     = [\<lparr>entry_id = None,
         content = [49324, 50857, 51088, 58, 32] @ ascii ''My CAT is ill'' @ [10, 65, 73, 58, 32]
                   @ ascii ''Poor thing'',
         memory_type = CONVERSATION, entry_user_id = ascii ''default_user'', score = 8 / 10,
         created_at = example_time, entry_metadata = Map.empty\<rparr>]"
    by (simp add: search_session_memories_def session_only_service_def slice_last_def
        slice_first_def cat_turn_def dog_turn_def ascii_lower_def ascii_def fixed_clock_def)
  have h: "\<not> memory_initialized session_only_service"
    by (simp add: session_only_service_def)
  show ?thesis
    using search_memories_falls_back [where s = session_only_service and store = store_down
        and lower = ascii_lower and clock = fixed_clock and elapsed = 0 and q = "ascii ''Cat''"
        and limit = 5] h s
    by simp
qed

subsection \<open>The session buffer\<close>

text \<open>
  With a bound of at least one, the buffer after \<open>add_conversation\<close> is the last
  \<open>max_session_memories\<close> entries of the old buffer followed by the new turn, in both
  branches, and the call returns \<open>True\<close>.
\<close>

lemma append_session_bounded:
  fixes s :: "'v MemoryService" and user_msg assistant_reply :: pystr and now :: datetime
    and meta :: "(pystr \<rightharpoonup> 'v) option" and cfg :: MemoryConfig
  assumes "1 \<le> max_session_memories cfg"
  defines "entry \<equiv> \<lparr>user_message = user_msg, assistant_response = assistant_reply,
                       sentiment = NEUTRAL, timestamp = now,
                       metadata = (case meta of None \<Rightarrow> Map.empty | Some m \<Rightarrow> m)\<rparr>"
  defines "s' \<equiv> append_session cfg now s user_msg assistant_reply meta"
  shows "session_memories s' =
           drop (length (session_memories s) + 1 - nat (max_session_memories cfg))
             (session_memories s @ [entry])"
    and "int (length (session_memories s')) \<le> max_session_memories cfg"
    and "last (session_memories s') = entry"
    and "session_memories s' \<noteq> []"
proof -
  let ?n = "nat (max_session_memories cfg)"
  let ?app = "session_memories s @ [entry]"
  have n: "1 \<le> ?n" "int ?n = max_session_memories cfg" using assms(1) by auto
  have sl: "slice_last (max_session_memories cfg) ?app = drop (length ?app - ?n) ?app"
    using assms(1) by (simp add: slice_last_def)
  have eq: "session_memories s' = drop (length ?app - ?n) ?app"
  proof (cases "int (length ?app) > max_session_memories cfg")
    case True
    then show ?thesis
      unfolding s'_def append_session_def Let_def entry_def [symmetric] using sl by simp
  next
    case False
    then have "length ?app - ?n = 0" using n by linarith
    with False show ?thesis
      unfolding s'_def append_session_def Let_def entry_def [symmetric] by simp
  qed
  show 1: "session_memories s' =
           drop (length (session_memories s) + 1 - nat (max_session_memories cfg))
             (session_memories s @ [entry])"
    using eq by simp
  have len: "length (session_memories s') = length ?app - (length ?app - ?n)"
    unfolding eq by simp
  show "int (length (session_memories s')) \<le> max_session_memories cfg"
    using len n by linarith
  have lt: "length ?app - ?n < length ?app" using n by simp
  then show ne: "session_memories s' \<noteq> []" unfolding eq by simp
  show "last (session_memories s') = entry"
    unfolding eq using lt by (simp add: last_drop)
qed

lemma add_conversation_bounded:
  fixes s :: "'v MemoryService" and user_msg assistant_reply :: pystr and now :: datetime
    and meta :: "(pystr \<rightharpoonup> 'v) option" and cfg :: MemoryConfig and store :: "'v mem0"
  assumes "1 \<le> max_session_memories cfg"
  defines "r \<equiv> add_conversation store cfg now s user_msg assistant_reply meta"
  shows "fst r = True
       \<and> int (length (session_memories (snd r))) \<le> max_session_memories cfg
       \<and> session_memories (snd r) =
           drop (length (session_memories s) + 1 - nat (max_session_memories cfg))
             (session_memories s
              @ [\<lparr>user_message = user_msg, assistant_response = assistant_reply,
                  sentiment = NEUTRAL, timestamp = now,
                  metadata = (case meta of None \<Rightarrow> Map.empty | Some m \<Rightarrow> m)\<rparr>])"
proof (cases "memory_initialized s")
  case False
  then have r: "r = (True, append_session cfg now s user_msg assistant_reply meta)"
    by (simp add: r_def add_conversation_def)
  note b = append_session_bounded(1,2) [OF assms(1), of now s user_msg assistant_reply meta]
  show ?thesis
    unfolding r fst_conv snd_conv using b by (intro conjI refl) assumption+
next
  case True
  define s1 where "s1 = (if add_succeeds store (memory s)
        (ConversationItem [ChatMessage (ascii ''user'') user_msg,
                      ChatMessage (ascii ''assistant'') assistant_reply] (user_id s)
                     (case meta of None \<Rightarrow> Map.empty | Some m \<Rightarrow> m))
       then s\<lparr>memory := memory s @ [ConversationItem [ChatMessage (ascii ''user'') user_msg,
                      ChatMessage (ascii ''assistant'') assistant_reply] (user_id s)
                     (case meta of None \<Rightarrow> Map.empty | Some m \<Rightarrow> m)]\<rparr> else s)"
  have ss: "session_memories s1 = session_memories s" by (simp add: s1_def)
  from True have r: "r = (True, append_session cfg now s1 user_msg assistant_reply meta)"
    by (simp add: r_def add_conversation_def Let_def s1_def)
  note b = append_session_bounded(1,2) [OF assms(1), of now s1 user_msg assistant_reply meta,
      unfolded ss]
  show ?thesis
    unfolding r fst_conv snd_conv using b by (intro conjI refl) assumption+
qed

text \<open>
  C4. With \<open>max_session_memories = 0\<close> the bound is not kept: the slice \<open>xs[-0:]\<close> is
  the whole list, so a buffer of two turns holds three after the call.
\<close>

theorem add_conversation_zero_limit:
  "fst (add_conversation store_down no_session_config example_time session_only_service
          (ascii ''a'') (ascii ''b'') None) = True
   \<and> length (session_memories (snd (add_conversation store_down no_session_config example_time
          session_only_service (ascii ''a'') (ascii ''b'') None))) = 3
   \<and> max_session_memories no_session_config = 0"
  by (simp add: add_conversation_def append_session_def no_session_config_def
      session_only_service_def slice_last_def)

section \<open>Properties of the personality service\<close>

subsection \<open>Changing the personality\<close>

lemma in_traits_member: "in_traits (Member t)"
  by (cases t) (simp_all add: PERSONALITY_TRAITS_def)

lemma in_traits_iff:
  "in_traits arg \<longleftrightarrow>
     arg \<in> {Member CARING, Member PLAYFUL, Member INTELLECTUAL, Member ROMANTIC}"
proof (cases arg)
  case (Member t)
  then show ?thesis using in_traits_member [of t] by (cases t) simp_all
next
  case (Other x)
  then show ?thesis by simp
qed

lemma change_personality_keeps_member:
  assumes "personality_type s = Member t0"
  shows "\<exists>t. personality_type (snd (change_personality s arg)) = Member t"
proof (cases arg)
  case (Member t)
  then show ?thesis using assms by (simp add: change_personality_def in_traits_member)
next
  case (Other x)
  then show ?thesis using assms by (simp add: change_personality_def)
qed

lemma change_personality_run_member:
  "personality_type s = Member t0 \<Longrightarrow>
   \<exists>t. personality_type (foldl (\<lambda>s a. snd (change_personality s a)) s args) = Member t"
proof (induction args arbitrary: s t0)
  case Nil
  then show ?case by simp
next
  case (Cons a args)
  from change_personality_keeps_member [OF Cons.prems, of a]
  obtain t where "personality_type (snd (change_personality s a)) = Member t" by (elim exE)
  from Cons.IH [OF this] show ?case by simp
qed

text \<open>
  C7. From a service whose current type is a member of the enumeration,
  \<open>change_personality\<close> returns \<open>True\<close> and makes the argument the current type exactly
  when the argument is one of the four personality types; for any other value it returns
  \<open>False\<close> and the service is unchanged. After any sequence of such calls the current
  type is a member with a bundle in \<open>PERSONALITY_TRAITS\<close>.
\<close>

theorem change_personality_defined:
  fixes s :: "'a PersonalityService"
  assumes "personality_type s = Member t0"
  shows "change_personality s arg =
           (if arg \<in> {Member CARING, Member PLAYFUL, Member INTELLECTUAL, Member ROMANTIC}
            then (Inr True, s\<lparr>personality_type := arg\<rparr>) else (Inr False, s))
       \<and> (\<exists>t. personality_type (foldl (\<lambda>s a. snd (change_personality s a)) s args) = Member t
              \<and> map_of PERSONALITY_TRAITS t \<noteq> None)"
proof -
  have 1: "change_personality s arg =
           (if arg \<in> {Member CARING, Member PLAYFUL, Member INTELLECTUAL, Member ROMANTIC}
            then (Inr True, s\<lparr>personality_type := arg\<rparr>) else (Inr False, s))"
    unfolding in_traits_iff [symmetric] using assms by (simp add: change_personality_def)
  from change_personality_run_member [OF assms, of args] obtain t where
    t: "personality_type (foldl (\<lambda>s a. snd (change_personality s a)) s args) = Member t"
    by (elim exE)
  have "map_of PERSONALITY_TRAITS t \<noteq> None" using in_traits_member [of t] by simp
  with t have 2: "\<exists>t. personality_type (foldl (\<lambda>s a. snd (change_personality s a)) s args) = Member t
              \<and> map_of PERSONALITY_TRAITS t \<noteq> None"
    by (intro exI [of _ t] conjI)
  from 1 2 show ?thesis by (rule conjI)
qed

text \<open>
  An instance: the member \<open>PLAYFUL\<close> is accepted and the string \<open>playful\<close> is not.
\<close>

theorem change_personality_defined_witness:
  "change_personality (init_personality exact (Member CARING)) (Member PLAYFUL :: string personality_arg)
     = (Inr True, (init_personality exact (Member CARING))\<lparr>personality_type := Member PLAYFUL\<rparr>)
   \<and> change_personality (init_personality exact (Member CARING)) (Other ''playful'')
     = (Inr False, init_personality exact (Member CARING))
   \<and> personality_type (foldl (\<lambda>s a. snd (change_personality s a))
        (init_personality exact (Member CARING))
        [Member ROMANTIC, Other ''playful'']) = Member ROMANTIC"
proof -
  have h: "personality_type (init_personality exact (Member CARING) :: string PersonalityService)
           = Member CARING"
    by (simp add: init_personality_def)
  have a: "change_personality (init_personality exact (Member CARING)) (Member PLAYFUL :: string personality_arg)
     = (Inr True, (init_personality exact (Member CARING))\<lparr>personality_type := Member PLAYFUL\<rparr>)"
    using change_personality_defined [OF h, of "Member PLAYFUL" "[]"] by simp
  have b: "change_personality (init_personality exact (Member CARING)) (Other ''playful'')
     = (Inr False, init_personality exact (Member CARING))"
    using change_personality_defined [OF h, of "Other ''playful''" "[]"] by simp
  have c: "personality_type (foldl (\<lambda>s a. snd (change_personality s a))
        (init_personality exact (Member CARING))
        [Member ROMANTIC, Other ''playful'']) = Member ROMANTIC"
    by (simp add: change_personality_def init_personality_def PERSONALITY_TRAITS_def)
  from a b c show ?thesis by (intro conjI)
qed

subsection \<open>The mood level\<close>

lemma mood_change_personality: "mood_level (snd (change_personality s arg)) = mood_level s"
  by (simp add: change_personality_def split: personality_arg.split)

lemma mood_get_personality_info: "mood_level (snd (get_personality_info s)) = mood_level s"
  by (simp add: get_personality_info_def Let_def split: personality_arg.split option.split)

lemma mood_update_interaction:
  "mood_level (update_interaction fl now s user_msg user_sentiment) =
     (if user_sentiment = POSITIVE then min (fl 1) (fl (mood_level s + fl (1 / 10)))
      else if user_sentiment = NEGATIVE then max (fl (2 / 10)) (fl (mood_level s - fl (5 / 100)))
      else mood_level s)"
  by (simp add: update_interaction_def Let_def)

lemma mood_step_in_range:
  assumes mono: "mono fl" and idem: "\<And>x. fl (fl x) = fl x" and zero: "fl 0 = 0"
    and inv: "mood_in_range fl s"
  shows "mood_in_range fl (personality_step fl s c)"
proof (cases c)
  case (UpdateInteraction user_msg user_sentiment now)
  have lo: "fl (2 / 10) \<le> mood_level s" and hi: "mood_level s \<le> fl 1"
    using inv by (simp_all add: mood_in_range_def)
  have lohi: "fl (2 / 10) \<le> fl 1" using lo hi by simp
  have pos: "0 \<le> fl (1 / 10)" "0 \<le> fl (5 / 100)"
    using monoD [OF mono, of 0 "1 / 10"] monoD [OF mono, of 0 "5 / 100"] zero by simp_all
  have up: "fl (2 / 10) \<le> fl (mood_level s + fl (1 / 10))"
    using monoD [OF mono, of "fl (2 / 10)" "mood_level s + fl (1 / 10)"] lo pos idem by simp
  have down: "fl (mood_level s - fl (5 / 100)) \<le> fl 1"
    using monoD [OF mono, of "mood_level s - fl (5 / 100)" "fl 1"] hi pos idem by simp
  show ?thesis
    unfolding UpdateInteraction personality_step.simps mood_in_range_def mood_update_interaction
    using lo hi lohi up down by (cases user_sentiment) simp_all
next
  case (ChangePersonality arg)
  then show ?thesis using inv by (simp add: mood_in_range_def mood_change_personality)
next
  case GetPersonalityInfo
  then show ?thesis using inv by (simp add: mood_in_range_def mood_get_personality_info)
qed

lemma mood_run_in_range:
  assumes mono: "mono fl" and idem: "\<And>x. fl (fl x) = fl x" and zero: "fl 0 = 0"
  shows "mood_in_range fl s \<Longrightarrow> mood_in_range fl (personality_run fl s calls)"
  unfolding personality_run_def
proof (induction calls arbitrary: s)
  case Nil
  then show ?case by simp
next
  case (Cons c calls)
  from mood_step_in_range [OF mono idem zero Cons.prems]
  have "mood_in_range fl (personality_step fl s c)" .
  from Cons.IH [OF this] show ?case by simp
qed

lemma mood_init_in_range:
  assumes mono: "mono fl"
  shows "mood_in_range fl (init_personality fl t)"
  using monoD [OF mono, of "2 / 10" "8 / 10"] monoD [OF mono, of "8 / 10" 1]
  by (simp add: mood_in_range_def init_personality_def)

text \<open>
  C8. Float rounding is monotone, leaves a float as it is and maps 0 to 0. With such a
  rounding \<open>fl\<close>, the mood level starts at the float 0.8, and after any sequence of calls
  that write to the service it lies between the floats 0.2 and 1.0: a positive
  interaction adds 0.1 and caps at 1.0, a negative one subtracts 0.05 and floors at 0.2,
  a neutral one and the other calls leave it unchanged.
\<close>

theorem mood_level_bounds:
  fixes fl :: "real \<Rightarrow> real" and s :: "'a PersonalityService"
  assumes "mono fl" and "\<And>x. fl (fl x) = fl x" and "fl 0 = 0"
  shows "mood_level (init_personality fl t :: 'a PersonalityService) = fl (8 / 10)
       \<and> fl (2 / 10) \<le> mood_level (personality_run fl (init_personality fl t :: 'a PersonalityService) calls)
       \<and> mood_level (personality_run fl (init_personality fl t :: 'a PersonalityService) calls) \<le> fl 1
       \<and> mood_level (update_interaction fl now s user_msg POSITIVE)
           = min (fl 1) (fl (mood_level s + fl (1 / 10)))
       \<and> mood_level (update_interaction fl now s user_msg NEGATIVE)
           = max (fl (2 / 10)) (fl (mood_level s - fl (5 / 100)))
       \<and> mood_level (update_interaction fl now s user_msg NEUTRAL) = mood_level s
       \<and> mood_level (snd (change_personality s arg)) = mood_level s
       \<and> mood_level (snd (get_personality_info s)) = mood_level s"
proof -
  have "mood_in_range fl (personality_run fl (init_personality fl t :: 'a PersonalityService) calls)"
    by (rule mood_run_in_range [OF assms mood_init_in_range [OF assms(1)]])
  then have r: "fl (2 / 10) \<le> mood_level (personality_run fl (init_personality fl t :: 'a PersonalityService) calls)"
    "mood_level (personality_run fl (init_personality fl t :: 'a PersonalityService) calls) \<le> fl 1"
    by (simp_all add: mood_in_range_def)
  have i: "mood_level (init_personality fl t :: 'a PersonalityService) = fl (8 / 10)"
    by (simp add: init_personality_def)
  show ?thesis
    using i r by (simp add: mood_update_interaction mood_change_personality mood_get_personality_info)
qed

text \<open>
  An instance in exact arithmetic: three positive interactions reach the cap 1.0, and a
  negative one then gives 0.95.
\<close>

theorem mood_level_bounds_witness:
  "mood_level (personality_run exact (init_personality exact (Member CARING))
      [UpdateInteraction (ascii ''great'') POSITIVE example_time,
       UpdateInteraction (ascii ''great'') POSITIVE example_time,
       UpdateInteraction (ascii ''great'') POSITIVE example_time,
       ChangePersonality (Other ''playful''),
       UpdateInteraction (ascii ''bad'') NEGATIVE example_time]) = 95 / 100
   \<and> 2 / 10 \<le> mood_level (personality_run exact (init_personality exact (Member CARING))
      [UpdateInteraction (ascii ''great'') POSITIVE example_time,
       UpdateInteraction (ascii ''great'') POSITIVE example_time,
       UpdateInteraction (ascii ''great'') POSITIVE example_time,
       ChangePersonality (Other ''playful''),
       UpdateInteraction (ascii ''bad'') NEGATIVE example_time])
   \<and> mood_level (personality_run exact (init_personality exact (Member CARING))
      [UpdateInteraction (ascii ''great'') POSITIVE example_time,
       UpdateInteraction (ascii ''great'') POSITIVE example_time,
       UpdateInteraction (ascii ''great'') POSITIVE example_time,
       ChangePersonality (Other ''playful''),
       UpdateInteraction (ascii ''bad'') NEGATIVE example_time]) \<le> 1"
proof -
  have m: "mono exact" by (simp add: mono_def exact_def)
  have i: "\<And>x. exact (exact x) = exact x" by (simp add: exact_def)
  have z: "exact 0 = 0" by (simp add: exact_def)
  have v: "mood_level (personality_run exact (init_personality exact (Member CARING))
      [UpdateInteraction (ascii ''great'') POSITIVE example_time,
       UpdateInteraction (ascii ''great'') POSITIVE example_time,
       UpdateInteraction (ascii ''great'') POSITIVE example_time,
       ChangePersonality (Other ''playful''),
       UpdateInteraction (ascii ''bad'') NEGATIVE example_time]) = 95 / 100"
    by (simp add: personality_run_def mood_update_interaction mood_change_personality
        init_personality_def exact_def)
  show ?thesis
    using v mood_level_bounds [OF m i z, where t = "Member CARING" and calls =
      "[UpdateInteraction (ascii ''great'') POSITIVE example_time,
       UpdateInteraction (ascii ''great'') POSITIVE example_time,
       UpdateInteraction (ascii ''great'') POSITIVE example_time,
       ChangePersonality (Other ''playful''),
       UpdateInteraction (ascii ''bad'') NEGATIVE example_time]"]
    by (simp add: exact_def)
qed

section \<open>Properties of the serialisation\<close>

lemma str_of_nat_small: "n < 10 \<Longrightarrow> str_of_nat n = [48 + n]"
  by simp

lemma str_of_nat_large: "\<not> n < 10 \<Longrightarrow> str_of_nat n = str_of_nat (n div 10) @ [48 + n mod 10]"
  by simp

declare str_of_nat.simps [simp del]

lemma fixed_digits_zero: "fixed_digits w 0 = replicate w 48"
  by (induction w) (simp_all add: replicate_append_same)

lemma length_fixed_digits [simp]: "length (fixed_digits w n) = w"
  by (induction w arbitrary: n) simp_all

lemma length_str_of_nat: "n < 10 ^ w \<Longrightarrow> 0 < w \<Longrightarrow> length (str_of_nat n) \<le> w"
proof (induction w arbitrary: n)
  case 0
  then show ?case by simp
next
  case (Suc w)
  show ?case
  proof (cases "n < 10")
    case True
    then show ?thesis by (simp add: str_of_nat_small)
  next
    case False
    with Suc.prems have w: "0 < w" by (cases w) simp_all
    from Suc.prems have "n div 10 < 10 ^ w" by (simp add: less_mult_imp_div_less mult.commute)
    from Suc.IH [OF this w] False show ?thesis by (simp add: str_of_nat_large)
  qed
qed

lemma zero_padded_fixed: "n < 10 ^ w \<Longrightarrow> 0 < w \<Longrightarrow> zero_padded w n = fixed_digits w n"
proof (induction w arbitrary: n)
  case 0
  then show ?case by simp
next
  case (Suc w)
  show ?case
  proof (cases "n < 10")
    case True
    then show ?thesis
      by (simp add: zero_padded_def str_of_nat_small fixed_digits_zero)
  next
    case False
    with Suc.prems have w: "0 < w" by (cases w) simp_all
    from Suc.prems have d: "n div 10 < 10 ^ w" by (simp add: less_mult_imp_div_less mult.commute)
    have l: "length (str_of_nat (n div 10)) \<le> w" by (rule length_str_of_nat [OF d w])
    have "zero_padded (Suc w) n = zero_padded w (n div 10) @ [48 + n mod 10]"
      using False l by (simp add: zero_padded_def str_of_nat_large Suc_diff_le)
    with Suc.IH [OF d w] show ?thesis by simp
  qed
qed

lemma digits_value_append:
  "digits_value acc (xs @ ys) = digits_value (digits_value acc xs) ys"
  by (induction xs arbitrary: acc) simp_all

lemma digits_value_fixed: "n < 10 ^ w \<Longrightarrow> digits_value acc (fixed_digits w n) = acc * 10 ^ w + n"
proof (induction w arbitrary: n acc)
  case 0
  then show ?case by simp
next
  case (Suc w)
  from Suc.prems have d: "n div 10 < 10 ^ w" by (simp add: less_mult_imp_div_less mult.commute)
  show ?case
    by (simp add: digits_value_append Suc.IH [OF d] algebra_simps)
qed

lemma fixed_digits_are_digits: "list_all is_digit (fixed_digits w n)"
  by (induction w arbitrary: n) (simp_all add: is_digit_def)

lemma parse_zero_padded:
  assumes "n < 10 ^ w" "0 < w"
  shows "parse_digits (zero_padded w n) = Some n" "length (zero_padded w n) = w"
proof -
  have ne: "fixed_digits w n \<noteq> []" using assms(2) by (cases w) simp_all
  show "parse_digits (zero_padded w n) = Some n"
    unfolding zero_padded_fixed [OF assms] parse_digits_def
    using ne fixed_digits_are_digits digits_value_fixed [OF assms(1), of 0] by simp
  show "length (zero_padded w n) = w"
    unfolding zero_padded_fixed [OF assms] by simp
qed

lemma parse_date_fields:
  assumes "length Y = 4" "length M = 2" "length D = 2"
    and "parse_digits Y = Some y" "parse_digits M = Some mo" "parse_digits D = Some d"
  shows "parse_date (Y @ [45] @ M @ [45] @ D) = Some (y, mo, d)"
proof -
  let ?s = "Y @ [45] @ M @ [45] @ D"
  have sl: "slice 0 4 ?s = Y" "slice 5 7 ?s = M" "slice 8 10 ?s = D"
    using assms(1-3) by (simp_all add: slice_def)
  have ix: "length ?s = 10" "?s ! 4 = 45" "?s ! 7 = 45"
    using assms(1-3) by (simp_all add: nth_append)
  show ?thesis
    unfolding parse_date_def by (simp only: sl ix assms(4-6) simp_thms if_True prod.case option.case)
qed

lemma parse_time_fields:
  assumes "length H = 2" "length Mi = 2" "length S = 2"
    and "parse_digits H = Some h" "parse_digits Mi = Some mi" "parse_digits S = Some se"
    and "U = [] \<and> us = 0 \<or> (\<exists>F. U = 46 # F \<and> length F = 6 \<and> parse_digits F = Some us)"
  shows "parse_time (H @ [58] @ Mi @ [58] @ S @ U) = Some (h, mi, se, us)"
proof -
  let ?s = "H @ [58] @ Mi @ [58] @ S @ U"
  have sl: "slice 0 2 ?s = H" "slice 3 5 ?s = Mi" "slice 6 8 ?s = S"
    using assms(1-3) by (simp_all add: slice_def)
  have ix: "?s ! 2 = 58" "?s ! 5 = 58"
    using assms(1-3) by (simp_all add: nth_append)
  from assms(7) show ?thesis
  proof
    assume u: "U = [] \<and> us = 0"
    then have len: "length ?s = 8" using assms(1-3) by simp
    show ?thesis
      unfolding parse_time_def len using sl ix assms(4-6) u by simp
  next
    assume "\<exists>F. U = 46 # F \<and> length F = 6 \<and> parse_digits F = Some us"
    then obtain F where u: "U = 46 # F" "length F = 6" "parse_digits F = Some us"
      by (elim exE conjE)
    have len: "length ?s = 15" using assms(1-3) u by simp
    have f: "slice 9 15 ?s = F" "?s ! 8 = 46"
      using assms(1-3) u by (simp_all add: slice_def nth_append)
    show ?thesis
      unfolding parse_time_def len using sl ix f assms(4-6) u by simp
  qed
qed

lemma take_date: "length xs = 10 \<Longrightarrow> take 10 (xs @ c # ys) = xs"
  by simp

lemma drop_date: "length xs = 10 \<Longrightarrow> drop 11 (xs @ c # ys) = ys"
  by simp

lemma length_date: "length xs = 10 \<Longrightarrow> 10 < length (xs @ c # ys)"
  by simp

lemma fromisoformat_isoformat:
  assumes v: "valid_datetime dt"
  shows "fromisoformat (isoformat dt) = Inr dt"
proof -
  let ?Y = "zero_padded 4 (year dt)" and ?M = "zero_padded 2 (month dt)"
  let ?D = "zero_padded 2 (day dt)" and ?H = "zero_padded 2 (hour dt)"
  let ?Mi = "zero_padded 2 (minute dt)" and ?S = "zero_padded 2 (second dt)"
  let ?F = "zero_padded 6 (microsecond dt)"
  let ?U = "if microsecond dt \<noteq> 0 then [46] @ ?F else []"
  let ?date = "?Y @ [45] @ ?M @ [45] @ ?D"
  let ?time = "?H @ [58] @ ?Mi @ [58] @ ?S @ ?U"
  have dm: "days_in_month (year dt) (month dt) \<le> 31" by (simp add: days_in_month_def)
  have r: "year dt < 10 ^ 4" "month dt < 10 ^ 2" "day dt < 10 ^ 2" "hour dt < 10 ^ 2"
    "minute dt < 10 ^ 2" "second dt < 10 ^ 2" "microsecond dt < 10 ^ 6"
    using v dm by (simp_all add: valid_datetime_def)
  note py = parse_zero_padded [OF r(1) zero_less_numeral]
    and pm = parse_zero_padded [OF r(2) zero_less_numeral]
    and pd = parse_zero_padded [OF r(3) zero_less_numeral]
    and ph = parse_zero_padded [OF r(4) zero_less_numeral]
    and pmi = parse_zero_padded [OF r(5) zero_less_numeral]
    and ps = parse_zero_padded [OF r(6) zero_less_numeral]
    and pf = parse_zero_padded [OF r(7) zero_less_numeral]
  have u: "?U = [] \<and> microsecond dt = 0
           \<or> (\<exists>F. ?U = 46 # F \<and> length F = 6 \<and> parse_digits F = Some (microsecond dt))"
    using pf by simp
  have iso: "isoformat dt = ?date @ 84 # ?time"
    by (simp add: isoformat_def)
  have ld: "length ?date = 10" using py(2) pm(2) pd(2) by simp
  have tk: "take 10 (isoformat dt) = ?date"
    unfolding iso by (rule take_date [OF ld])
  have dr: "drop 11 (isoformat dt) = ?time"
    unfolding iso by (rule drop_date [OF ld])
  have "10 < length (isoformat dt)"
    unfolding iso by (rule length_date [OF ld])
  then have len: "\<not> length (isoformat dt) < 10" "length (isoformat dt) \<noteq> 10"
    by simp_all
  have d: "parse_date (take 10 (isoformat dt)) = Some (year dt, month dt, day dt)"
    unfolding tk
    by (rule parse_date_fields [OF py(2) pm(2) pd(2) py(1) pm(1) pd(1)])
  have t: "parse_time (drop 11 (isoformat dt))
           = Some (hour dt, minute dt, second dt, microsecond dt)"
    unfolding dr
    by (rule parse_time_fields [OF ph(2) pmi(2) ps(2) ph(1) pmi(1) ps(1) u])
  have rec: "\<lparr>year = year dt, month = month dt, day = day dt, hour = hour dt,
             minute = minute dt, second = second dt, microsecond = microsecond dt\<rparr> = dt"
    by simp
  show ?thesis
    unfolding fromisoformat_def
    by (simp only: len d t rec v if_False if_True option.case prod.case Let_def)
qed

lemma sentiment_of_value_roundtrip: "sentiment_of_value (sentiment_value x) = Inr x"
  by (cases x) (simp_all add: sentiment_of_value_def ascii_def)

text \<open>
  C10. For every conversation entry (its timestamp a datetime, so with fields in their
  ranges), \<open>from_dict (to_dict e)\<close> succeeds and gives \<open>e\<close> back, equal in every field.
\<close>

theorem conversation_entry_roundtrip:
  fixes e :: "'v ConversationEntry"
  assumes "valid_datetime (timestamp e)"
  shows "from_dict (to_dict e) = Inr e"
proof -
  have k: "to_dict e (ascii ''user_message'') = Some (StrValue (user_message e))"
    "to_dict e (ascii ''assistant_response'') = Some (StrValue (assistant_response e))"
    "to_dict e (ascii ''sentiment'') = Some (StrValue (sentiment_value (sentiment e)))"
    "to_dict e (ascii ''timestamp'') = Some (StrValue (isoformat (timestamp e)))"
    "to_dict e (ascii ''metadata'') = Some (DictValue (metadata e))"
    by (simp_all add: to_dict_def ascii_def)
  have rec: "\<lparr>user_message = user_message e, assistant_response = assistant_response e,
             sentiment = sentiment e, timestamp = timestamp e, metadata = metadata e\<rparr> = e"
    by simp
  show ?thesis
    unfolding from_dict_def
    by (simp only: k option.case dict_value.case sentiment_of_value_roundtrip sum.case
        fromisoformat_isoformat [OF assms] prod.case rec)
qed


text \<open>An instance: a turn stamped 2024-02-29 09:05:07.001500.\<close>

lemma replicate_2: "replicate 2 x = [x, x]"
  by (simp add: numeral_2_eq_2)

lemma isoformat_example: "isoformat example_time = ascii ''2024-02-29T09:05:07.001500''"
  by (simp add: isoformat_def zero_padded_def str_of_nat.simps example_time_def ascii_def
      replicate_2)

lemma valid_example_time: "valid_datetime example_time"
  by (simp add: valid_datetime_def example_time_def days_in_month_def is_leap_def)

theorem conversation_entry_roundtrip_witness:
  "valid_datetime (timestamp cat_turn)
   \<and> to_dict cat_turn (ascii ''timestamp'') = Some (StrValue (ascii ''2024-02-29T09:05:07.001500''))
   \<and> from_dict (to_dict cat_turn) = Inr cat_turn"
proof -
  have v: "valid_datetime (timestamp cat_turn)"
    using valid_example_time by (simp add: cat_turn_def)
  have t: "to_dict cat_turn (ascii ''timestamp'')
           = Some (StrValue (ascii ''2024-02-29T09:05:07.001500''))"
    using isoformat_example by (simp add: to_dict_def cat_turn_def ascii_def)
  from v t conversation_entry_roundtrip [OF v] show ?thesis by (intro conjI)
qed

end
